theory Spec2Isabelle
  imports Main "HOL-Library.Word"
begin

unbundle bit_operations_syntax

section \<open>The Vulkan pipeline cache (video_core/renderer_vulkan/vk_pipeline_cache.cpp)\<close>

text \<open>
  Machine types of the source: \<open>u64\<close> and \<open>u32\<close> are words, so that their arithmetic
  wraps as in C++. A \<open>std::size_t\<close> that indexes a vector is a \<open>nat\<close>: it never exceeds
  the size of the vector it walks, and the one subtraction on it has its wrap-around
  written out.
\<close>

type_synonym u64 = "64 word"
type_synonym u32 = "32 word"
type_synonym GPUVAddr = u64
type_synonym VAddr = u64
type_synonym ProgramCode = "u64 list"

subsection \<open>Program length\<close>

text \<open>\<open>IsSchedInstruction\<close>: the subtraction is on \<open>std::size_t\<close> (64 bits).\<close>

definition IsSchedInstruction :: "nat \<Rightarrow> nat \<Rightarrow> bool" where
  "IsSchedInstruction offset main_offset =
     (let SchedPeriod = 4;
          absolute_offset = (2 ^ 64 + offset - main_offset) mod 2 ^ 64
      in absolute_offset mod SchedPeriod = 0)"

definition self_jumping_branch :: u64 where
  "self_jumping_branch = 0xE2400FFFFF07000F"

definition mask :: u64 where
  "mask = 0xFFFFFFFFFF7FFFFF"

text \<open>
  The \<open>while\<close> loop of \<open>CalculateProgramSize\<close>; the result is the value of \<open>offset\<close>
  when the loop is left, by \<open>break\<close> or by its condition.
\<close>

function CalculateProgramSize_loop :: "ProgramCode \<Rightarrow> nat \<Rightarrow> nat \<Rightarrow> nat" where
  "CalculateProgramSize_loop program start_offset offset =
     (if offset < length program then
        (let instruction = program ! offset in
         if \<not> IsSchedInstruction offset start_offset then
           (if instruction AND mask = self_jumping_branch then offset
            else if instruction = 0 then offset
            else CalculateProgramSize_loop program start_offset (offset + 1))
         else CalculateProgramSize_loop program start_offset (offset + 1))
      else offset)"
  by pat_completeness auto
termination
  by (relation "measure (\<lambda>(program, start_offset, offset). length program - offset)") auto

declare CalculateProgramSize_loop.simps [simp del]

definition CalculateProgramSize :: "ProgramCode \<Rightarrow> bool \<Rightarrow> nat" where
  "CalculateProgramSize program is_compute =
     (let start_offset = (if is_compute then 0 else 10);
          offset = CalculateProgramSize_loop program start_offset start_offset
      in min (offset + 1) (length program))"

text \<open>
  The specification's words for a terminator: a word that is not in a scheduler slot
  (its distance from the scan origin is not a multiple of 4) and that is the self-branch
  under the mask, or zero.
\<close>

definition terminator_at :: "ProgramCode \<Rightarrow> nat \<Rightarrow> nat \<Rightarrow> bool" where
  "terminator_at program origin i =
     (origin \<le> i \<and> i < length program \<and> (i - origin) mod 4 \<noteq> 0 \<and>
      (program ! i AND 0xFFFFFFFFFF7FFFFF = 0xE2400FFFFF07000F \<or> program ! i = 0))"

definition scan_origin :: "bool \<Rightarrow> nat" where
  "scan_origin is_compute = (if is_compute then 0 else 10)"

subsection \<open>Shader code fetch\<close>

text \<open>
  A host pointer (\<open>const u8*\<close>) is its address; \<open>nullptr\<close> is 0. The memory manager is
  declared outside this file; what the file uses of it is a record of functions:
  \<open>GetPointer\<close>, \<open>GpuToCpuAddress\<close> (a \<open>std::optional\<close>), and the block read, given as
  the 64-bit word that \<open>ReadBlockUnsafe\<close> stores at index \<open>i\<close> of the destination buffer.
\<close>

type_synonym HostPtr = u64

definition nullptr :: HostPtr where
  "nullptr = 0"

record MemoryManager =
  GetPointer :: "GPUVAddr \<Rightarrow> HostPtr"
  GpuToCpuAddress :: "GPUVAddr \<Rightarrow> VAddr option"
  ReadBlockUnsafe :: "GPUVAddr \<Rightarrow> nat \<Rightarrow> u64"

text \<open>\<open>std::vector::resize\<close>: cut, or pad with zero words.\<close>

definition resize :: "ProgramCode \<Rightarrow> nat \<Rightarrow> ProgramCode" where
  "resize code n = take n code @ replicate (n - length code) 0"

text \<open>
  \<open>GetShaderCode\<close>. \<open>MAX_PROGRAM_LENGTH\<close> is a constant of the shader decoder, declared
  outside this file, and is a parameter here. When its condition fails,
  \<open>ASSERT_OR_EXECUTE\<close> reports that and runs its block, which returns from the function;
  the report is not part of the result.
\<close>

definition GetShaderCode ::
    "nat \<Rightarrow> 'a MemoryManager_scheme \<Rightarrow> GPUVAddr \<Rightarrow> HostPtr \<Rightarrow> bool \<Rightarrow> ProgramCode" where
  "GetShaderCode MAX_PROGRAM_LENGTH memory_manager gpu_addr host_ptr is_compute =
     (let program_code = replicate MAX_PROGRAM_LENGTH (0 :: u64) in
      if \<not> (host_ptr \<noteq> nullptr) then
        (let program_code = replicate (length program_code) 0 in program_code)
      else
        (let program_code = map (ReadBlockUnsafe memory_manager gpu_addr) [0 ..< length program_code];
             program_code = resize program_code (CalculateProgramSize program_code is_compute)
         in program_code))"

subsection \<open>Stages and programs\<close>

text \<open>
  \<open>Tegra::Engines::ShaderType\<close> and \<open>Maxwell::ShaderProgram\<close>, in the order of their
  values 0 to 5. The two enumerations share names in the source; the programs carry the
  suffix \<open>Program\<close> here.
\<close>

datatype ShaderType =
  Vertex | TesselationControl | TesselationEval | Geometry | Fragment | Compute

datatype ShaderProgram =
  VertexA | VertexB | TesselationControlProgram | TesselationEvalProgram
  | GeometryProgram | FragmentProgram

text \<open>
  Modelled from the spec: \<open>Maxwell::MaxShaderProgram\<close> is declared outside this file; the
  specification speaks of a 6-slot program enumeration.
\<close>

definition MaxShaderProgram :: nat where
  "MaxShaderProgram = 6"

text \<open>The \<open>static_cast\<close>s between the enumerations and \<open>std::size_t\<close>.\<close>

fun index_of_program :: "ShaderProgram \<Rightarrow> nat" where
  "index_of_program VertexA = 0"
| "index_of_program VertexB = 1"
| "index_of_program TesselationControlProgram = 2"
| "index_of_program TesselationEvalProgram = 3"
| "index_of_program GeometryProgram = 4"
| "index_of_program FragmentProgram = 5"

definition program_of_index :: "nat \<Rightarrow> ShaderProgram" where
  "program_of_index index =
     [VertexA, VertexB, TesselationControlProgram, TesselationEvalProgram,
      GeometryProgram, FragmentProgram] ! index"

definition stage_of_index :: "nat \<Rightarrow> ShaderType" where
  "stage_of_index index =
     [Vertex, TesselationControl, TesselationEval, Geometry, Fragment, Compute] ! index"

definition GetStageFromProgram_index :: "nat \<Rightarrow> nat" where
  "GetStageFromProgram_index program = (if program = 0 then 0 else program - 1)"

definition GetStageFromProgram :: "ShaderProgram \<Rightarrow> ShaderType" where
  "GetStageFromProgram program =
     stage_of_index (GetStageFromProgram_index (index_of_program program))"

text \<open>
  \<open>GetShaderType\<close>: the \<open>default\<close> branch reports "unimplemented" and answers
  \<open>Vertex\<close>; the second component says whether that branch was taken.
\<close>

fun GetShaderType :: "ShaderProgram \<Rightarrow> ShaderType \<times> bool" where
  "GetShaderType VertexB = (Vertex, False)"
| "GetShaderType TesselationControlProgram = (TesselationControl, False)"
| "GetShaderType TesselationEvalProgram = (TesselationEval, False)"
| "GetShaderType GeometryProgram = (Geometry, False)"
| "GetShaderType FragmentProgram = (Fragment, False)"
| "GetShaderType _ = (Vertex, True)"

subsection \<open>Resource manifest and descriptor layout\<close>

text \<open>
  The entry types of \<open>ShaderEntries\<close> are declared by the decompiler, outside this file.
  This file reads only the size of each container and, for a sampler, its \<open>Size()\<close>; the
  other entries carry an index that nothing here looks at.
\<close>

datatype ConstBufferEntry = ConstBufferEntry nat
datatype GlobalBufferEntry = GlobalBufferEntry nat
datatype TexelBufferEntry = TexelBufferEntry nat
datatype SamplerEntry = SamplerEntry (Size: u32)
datatype ImageEntry = ImageEntry nat

record ShaderEntries =
  const_buffers :: "ConstBufferEntry list"
  global_buffers :: "GlobalBufferEntry list"
  texel_buffers :: "TexelBufferEntry list"
  samplers :: "SamplerEntry list"
  images :: "ImageEntry list"

text \<open>
  Modelled from the spec: \<open>ShaderEntries::NumBindings\<close> is declared outside this file;
  the specification calls it the manifest's total declared-resource count. It is a
  \<open>u32\<close>.
\<close>

definition NumBindings :: "ShaderEntries \<Rightarrow> u32" where
  "NumBindings entries =
     of_nat (length (const_buffers entries) + length (global_buffers entries) +
             length (texel_buffers entries) + length (samplers entries) +
             length (images entries))"

datatype DescriptorType =
  eUniformBuffer | eStorageBuffer | eUniformTexelBuffer | eCombinedImageSampler | eStorageImage

text \<open>
  \<open>MaxwellToVK::ShaderStage\<close> is declared outside this file; the flags it gives for a
  stage are kept as that stage.
\<close>

datatype ShaderStageFlags = ShaderStage ShaderType

text \<open>
  \<open>vk::DescriptorSetLayoutBinding\<close>; its last field, the immutable samplers, is always
  \<open>nullptr\<close> here and is left out.
\<close>

record DescriptorSetLayoutBinding =
  lb_binding :: u32
  lb_descriptorType :: DescriptorType
  lb_descriptorCount :: u32
  lb_stageFlags :: ShaderStageFlags

text \<open>
  \<open>AddBindings\<close> is a template over the descriptor type and the container. The member
  \<open>Size()\<close> of the container's elements, which only the sampler instance calls, is the
  parameter \<open>sz\<close>. \<open>num_entries\<close> is the size of the container cast to \<open>u32\<close>; the loop
  counter is a \<open>std::size_t\<close>.
\<close>

function AddBindings_loop ::
    "DescriptorType \<Rightarrow> ('a \<Rightarrow> u32) \<Rightarrow> ShaderStageFlags \<Rightarrow> 'a list \<Rightarrow> nat \<Rightarrow> nat \<Rightarrow>
     DescriptorSetLayoutBinding list \<times> u32 \<Rightarrow> DescriptorSetLayoutBinding list \<times> u32" where
  "AddBindings_loop descriptor_type sz stage_flags container num_entries i (bindings, bnd) =
     (if i < num_entries then
        (let count = (if descriptor_type = eCombinedImageSampler then sz (container ! i) else 1)
         in AddBindings_loop descriptor_type sz stage_flags container num_entries (i + 1)
              (bindings @ [\<lparr>lb_binding = bnd, lb_descriptorType = descriptor_type,
                             lb_descriptorCount = count, lb_stageFlags = stage_flags\<rparr>],
               bnd + 1))
      else (bindings, bnd))"
  by pat_completeness auto
termination
  by (relation "measure (\<lambda>(dt, sz, fl, c, n, i, s). n - i)") auto

declare AddBindings_loop.simps [simp del]

definition AddBindings ::
    "DescriptorType \<Rightarrow> ('a \<Rightarrow> u32) \<Rightarrow> DescriptorSetLayoutBinding list \<times> u32 \<Rightarrow>
     ShaderStageFlags \<Rightarrow> 'a list \<Rightarrow> DescriptorSetLayoutBinding list \<times> u32" where
  "AddBindings descriptor_type sz state stage_flags container =
     (let num_entries = unat (of_nat (length container) :: u32)
      in AddBindings_loop descriptor_type sz stage_flags container num_entries 0 state)"

text \<open>
  \<open>FillDescriptorLayout\<close>: the vector \<open>bindings\<close> is passed by reference; the result is
  the vector after the call and the returned binding.
\<close>

definition FillDescriptorLayout ::
    "ShaderEntries \<Rightarrow> DescriptorSetLayoutBinding list \<Rightarrow> ShaderProgram \<Rightarrow> u32 \<Rightarrow>
     DescriptorSetLayoutBinding list \<times> u32" where
  "FillDescriptorLayout entries bindings program_type base_binding =
     (let stage = GetStageFromProgram program_type;
          flags = ShaderStage stage;
          s = (bindings, base_binding);
          s = AddBindings eUniformBuffer (\<lambda>_. 1) s flags (const_buffers entries);
          s = AddBindings eStorageBuffer (\<lambda>_. 1) s flags (global_buffers entries);
          s = AddBindings eUniformTexelBuffer (\<lambda>_. 1) s flags (texel_buffers entries);
          s = AddBindings eCombinedImageSampler Size s flags (samplers entries);
          s = AddBindings eStorageImage (\<lambda>_. 1) s flags (images entries)
      in s)"

subsection \<open>Descriptor update template\<close>

text \<open>
  \<open>vk::DescriptorUpdateTemplateEntry\<close>. Its offset and stride are \<open>std::size_t\<close>; the
  values stored are \<open>u32\<close> values, widened.
\<close>

record DescriptorUpdateTemplateEntry =
  te_dstBinding :: u32
  te_dstArrayElement :: u32
  te_descriptorCount :: u32
  te_descriptorType :: DescriptorType
  te_offset :: u64
  te_stride :: u64

text \<open>
  The state that \<open>AddEntry\<close> updates through its reference parameters, in the order of
  its parameter list: \<open>template_entries\<close>, \<open>binding\<close>, \<open>offset\<close>.
\<close>

type_synonym AddEntry_state = "DescriptorUpdateTemplateEntry list \<times> u32 \<times> u32"

function AddEntry_sampler_loop ::
    "('a \<Rightarrow> u32) \<Rightarrow> u32 \<Rightarrow> 'a list \<Rightarrow> nat \<Rightarrow> nat \<Rightarrow> AddEntry_state \<Rightarrow> AddEntry_state" where
  "AddEntry_sampler_loop sz entry_size container count i (template_entries, bnd, off) =
     (if i < count then
        (let num_samplers = sz (container ! i)
         in AddEntry_sampler_loop sz entry_size container count (i + 1)
              (template_entries @
                 [\<lparr>te_dstBinding = bnd, te_dstArrayElement = 0,
                   te_descriptorCount = num_samplers,
                   te_descriptorType = eCombinedImageSampler,
                   te_offset = ucast off, te_stride = ucast entry_size\<rparr>],
               bnd + 1, off + num_samplers * entry_size))
      else (template_entries, bnd, off))"
  by pat_completeness auto
termination
  by (relation "measure (\<lambda>(sz, es, c, n, i, s). n - i)") auto

declare AddEntry_sampler_loop.simps [simp del]

function AddEntry_texel_loop ::
    "u32 \<Rightarrow> u32 \<Rightarrow> u32 \<Rightarrow> nat \<Rightarrow> nat \<Rightarrow> DescriptorUpdateTemplateEntry list \<Rightarrow>
     DescriptorUpdateTemplateEntry list" where
  "AddEntry_texel_loop entry_size bnd off count i template_entries =
     (if i < count then
        AddEntry_texel_loop entry_size bnd off count (i + 1)
          (template_entries @
             [\<lparr>te_dstBinding = bnd + of_nat i, te_dstArrayElement = 0,
               te_descriptorCount = 1, te_descriptorType = eUniformTexelBuffer,
               te_offset = ucast (off + of_nat i * entry_size),
               te_stride = ucast entry_size\<rparr>])
      else template_entries)"
  by pat_completeness auto
termination
  by (relation "measure (\<lambda>(es, b, off, n, i, t). n - i)") auto

declare AddEntry_texel_loop.simps [simp del]

text \<open>
  \<open>AddEntry\<close>. \<open>entry_size\<close> is \<open>sizeof(DescriptorUpdateEntry)\<close>, a type declared outside
  this file, and is a parameter. The loop counters are \<open>u32\<close> values below \<open>count\<close>.
\<close>

definition AddEntry ::
    "DescriptorType \<Rightarrow> ('a \<Rightarrow> u32) \<Rightarrow> u32 \<Rightarrow> AddEntry_state \<Rightarrow> 'a list \<Rightarrow> AddEntry_state" where
  "AddEntry descriptor_type sz entry_size state container =
     (let count = (of_nat (length container) :: u32) in
      if descriptor_type = eCombinedImageSampler then
        AddEntry_sampler_loop sz entry_size container (unat count) 0 state
      else
        (case state of (template_entries, bnd, off) \<Rightarrow>
           (let template_entries =
                  (if descriptor_type = eUniformTexelBuffer then
                     AddEntry_texel_loop entry_size bnd off (unat count) 0 template_entries
                   else if count > 0 then
                     template_entries @
                       [\<lparr>te_dstBinding = bnd, te_dstArrayElement = 0,
                         te_descriptorCount = count, te_descriptorType = descriptor_type,
                         te_offset = ucast off, te_stride = ucast entry_size\<rparr>]
                   else template_entries)
            in (template_entries, bnd + count, off + count * entry_size))))"

text \<open>
  \<open>FillDescriptorUpdateTemplateEntries(entries, binding, offset, template_entries)\<close>.
  Each call is \<open>AddEntry(template_entries, offset, binding, container)\<close>: the caller's
  \<open>offset\<close> is the argument for \<open>AddEntry\<close>'s parameter \<open>binding\<close>, and the caller's
  \<open>binding\<close> the argument for its parameter \<open>offset\<close>. The result is the three
  reference parameters after the call, as \<open>(binding, offset, template_entries)\<close>.
\<close>

definition FillDescriptorUpdateTemplateEntries ::
    "u32 \<Rightarrow> ShaderEntries \<Rightarrow> u32 \<Rightarrow> u32 \<Rightarrow> DescriptorUpdateTemplateEntry list \<Rightarrow>
     u32 \<times> u32 \<times> DescriptorUpdateTemplateEntry list" where
  "FillDescriptorUpdateTemplateEntries entry_size entries bnd off template_entries =
     (case AddEntry eUniformBuffer (\<lambda>_. 1) entry_size (template_entries, off, bnd)
             (const_buffers entries) of (template_entries, off, bnd) \<Rightarrow>
      case AddEntry eStorageBuffer (\<lambda>_. 1) entry_size (template_entries, off, bnd)
             (global_buffers entries) of (template_entries, off, bnd) \<Rightarrow>
      case AddEntry eUniformTexelBuffer (\<lambda>_. 1) entry_size (template_entries, off, bnd)
             (texel_buffers entries) of (template_entries, off, bnd) \<Rightarrow>
      case AddEntry eCombinedImageSampler Size entry_size (template_entries, off, bnd)
             (samplers entries) of (template_entries, off, bnd) \<Rightarrow>
      case AddEntry eStorageImage (\<lambda>_. 1) entry_size (template_entries, off, bnd)
             (images entries) of (template_entries, off, bnd) \<Rightarrow>
      (bnd, off, template_entries))"

text \<open>
  For the statements about \<open>AddBindings\<close>: the bindings that one call appends for the
  first \<open>n\<close> elements of a container, numbered from \<open>b\<close>.
\<close>

definition layout_segment ::
    "DescriptorType \<Rightarrow> ('a \<Rightarrow> u32) \<Rightarrow> ShaderStageFlags \<Rightarrow> 'a list \<Rightarrow> u32 \<Rightarrow> nat \<Rightarrow>
     DescriptorSetLayoutBinding list" where
  "layout_segment descriptor_type sz stage_flags container b n =
     map (\<lambda>k. \<lparr>lb_binding = b + of_nat k, lb_descriptorType = descriptor_type,
               lb_descriptorCount =
                 (if descriptor_type = eCombinedImageSampler then sz (container ! k) else 1),
               lb_stageFlags = stage_flags\<rparr>) [0 ..< n]"

text \<open>The number of resources a manifest declares, as a natural number.\<close>

definition declared_resources :: "ShaderEntries \<Rightarrow> nat" where
  "declared_resources entries =
     length (const_buffers entries) + length (global_buffers entries) +
     length (texel_buffers entries) + length (samplers entries) + length (images entries)"

text \<open>Every container of the manifest has a size that a \<open>u32\<close> holds.\<close>

definition sizes_fit_u32 :: "ShaderEntries \<Rightarrow> bool" where
  "sizes_fit_u32 entries =
     (length (const_buffers entries) < 2 ^ 32 \<and> length (global_buffers entries) < 2 ^ 32 \<and>
      length (texel_buffers entries) < 2 ^ 32 \<and> length (samplers entries) < 2 ^ 32 \<and>
      length (images entries) < 2 ^ 32)"

text \<open>
  The manifest of the specification's example: 2 constant buffers, no storage buffer,
  1 texel buffer, 3 samplers of array sizes 1, 1 and 2, and 1 storage image.
\<close>

definition example_manifest :: ShaderEntries where
  "example_manifest =
     \<lparr>const_buffers = [ConstBufferEntry 0, ConstBufferEntry 1],
      global_buffers = [],
      texel_buffers = [TexelBufferEntry 0],
      samplers = [SamplerEntry 1, SamplerEntry 1, SamplerEntry 2],
      images = [ImageEntry 0]\<rparr>"

text \<open>Memory managers for the examples.\<close>

definition null_memory :: MemoryManager where
  "null_memory = \<lparr>GetPointer = (\<lambda>_. nullptr), GpuToCpuAddress = (\<lambda>_. None),
                   ReadBlockUnsafe = (\<lambda>_ _. 0)\<rparr>"

definition example_memory :: MemoryManager where
  "example_memory = \<lparr>GetPointer = (\<lambda>a. a + 0x1000), GpuToCpuAddress = (\<lambda>a. Some a),
                      ReadBlockUnsafe = (\<lambda>a i. if i = 2 then 0 else 1)\<rparr>"

text \<open>A manifest with one constant buffer, for the examples.\<close>

definition one_const_buffer :: ShaderEntries where
  "one_const_buffer =
     \<lparr>const_buffers = [ConstBufferEntry 0], global_buffers = [], texel_buffers = [],
      samplers = [], images = []\<rparr>"

subsection \<open>Keys, shaders and pipelines\<close>

text \<open>
  \<open>FixedPipelineState\<close> is declared outside this file. The file reads four of its fields
  and compares the whole by value; the fields it does not read are one value,
  \<open>fs_remaining\<close>. A \<open>float\<close> is its 32-bit pattern.
\<close>

datatype PrimitiveTopology = Points | OtherTopology nat

type_synonym f32 = u32

record FixedPipelineState =
  fs_topology :: PrimitiveTopology
  fs_point_size :: f32
  fs_attribute_types :: "nat list"
  fs_ndc_minus_one_to_one :: bool
  fs_remaining :: nat

record GraphicsPipelineCacheKey =
  gk_fixed_state :: FixedPipelineState
  gk_shaders :: "GPUVAddr list"

record ComputePipelineCacheKey =
  ck_shader :: GPUVAddr
  ck_shared_memory_size :: u32
  ck_workgroup_size :: "u32 list"

text \<open>\<open>Specialization\<close>, declared by the decompiler, with its default initialisers.\<close>

record Specialization =
  spec_base_binding :: u32
  spec_workgroup_size :: "u32 list"
  spec_shared_memory_size :: u32
  spec_point_size :: "f32 option"
  spec_attribute_types :: "nat list"
  spec_ndc_minus_one_to_one :: bool

definition default_Specialization :: Specialization where
  "default_Specialization =
     \<lparr>spec_base_binding = 0, spec_workgroup_size = [0, 0, 0], spec_shared_memory_size = 0,
      spec_point_size = None, spec_attribute_types = [], spec_ndc_minus_one_to_one = False\<rparr>"

datatype Engine = KeplerCompute | Maxwell3D

record Registry =
  reg_stage :: ShaderType
  reg_engine :: Engine

record ShaderIR =
  ir_program_code :: ProgramCode
  ir_main_offset :: u32
  ir_registry :: Registry

type_synonym SPIRVCode = "u32 list"

record SPIRVShader =
  sp_code :: SPIRVCode
  sp_entries :: ShaderEntries

text \<open>\<open>SPIRVProgram\<close>: one optional shader per graphics stage.\<close>

type_synonym SPIRVProgram = "SPIRVShader option list"

text \<open>
  Modelled from the spec: \<open>Maxwell::MaxShaderStage\<close> is declared outside this file; the
  specification speaks of a 5-stage pipeline.
\<close>

definition MaxShaderStage :: nat where
  "MaxShaderStage = 5"

record CachedShader =
  sh_host_ptr :: HostPtr
  sh_gpu_addr :: GPUVAddr
  sh_cpu_addr :: VAddr
  sh_program_code :: ProgramCode
  sh_registry :: Registry
  sh_shader_ir :: ShaderIR
  sh_entries :: ShaderEntries

text \<open>
  What the file calls and does not define: the length of the code buffer, the derivation
  of the resource manifest from the intermediate representation, and the backend code
  generator.
\<close>

record Collaborators =
  ext_MAX_PROGRAM_LENGTH :: nat
  ext_GenerateShaderEntries :: "ShaderIR \<Rightarrow> ShaderEntries"
  ext_Decompile :: "ShaderIR \<Rightarrow> ShaderType \<Rightarrow> Registry \<Rightarrow> Specialization \<Rightarrow> SPIRVCode"

text \<open>
  The emulated system as this file reads it: the memory manager and, of the Maxwell3D
  registers, the enable bit and the offset of each shader program and the code address.
\<close>

record System =
  sys_memory_manager :: MemoryManager
  sys_IsShaderConfigEnabled :: "nat \<Rightarrow> bool"
  sys_CodeAddress :: GPUVAddr
  sys_shader_config_offset :: "nat \<Rightarrow> u32"

definition GetShaderAddress :: "System \<Rightarrow> ShaderProgram \<Rightarrow> GPUVAddr" where
  "GetShaderAddress system program =
     sys_CodeAddress system + ucast (sys_shader_config_offset system (index_of_program program))"

definition GetEngine :: "ShaderType \<Rightarrow> Engine" where
  "GetEngine stage = (if stage = Compute then KeplerCompute else Maxwell3D)"

text \<open>The constructor of \<open>CachedShader\<close>.\<close>

definition new_CachedShader ::
    "Collaborators \<Rightarrow> ShaderType \<Rightarrow> GPUVAddr \<Rightarrow> VAddr \<Rightarrow> HostPtr \<Rightarrow> ProgramCode \<Rightarrow> u32 \<Rightarrow>
     CachedShader" where
  "new_CachedShader ext stage gpu_addr cpu_addr host_ptr program_code main_offset =
     (let registry = \<lparr>reg_stage = stage, reg_engine = GetEngine stage\<rparr>;
          shader_ir = \<lparr>ir_program_code = program_code, ir_main_offset = main_offset,
                       ir_registry = registry\<rparr>
      in \<lparr>sh_host_ptr = host_ptr, sh_gpu_addr = gpu_addr, sh_cpu_addr = cpu_addr,
          sh_program_code = program_code, sh_registry = registry, sh_shader_ir = shader_ir,
          sh_entries = ext_GenerateShaderEntries ext shader_ir\<rparr>)"

record VKGraphicsPipeline =
  gp_key :: GraphicsPipelineCacheKey
  gp_bindings :: "DescriptorSetLayoutBinding list"
  gp_program :: SPIRVProgram

record VKComputePipeline =
  cp_shader :: SPIRVShader

subsection \<open>The state of the cache\<close>

text \<open>
  What the cache does to the outside, in the order it does it: the two "Compile" log
  lines, the wait on the scheduler, the destruction of a pipeline by \<open>erase\<close>, and the
  reports of failed assertions and of unimplemented code.
\<close>

datatype event =
  LogCompileGraphics GraphicsPipelineCacheKey
  | LogCompileCompute ComputePipelineCacheKey
  | SchedulerFinish
  | EraseGraphics GraphicsPipelineCacheKey
  | EraseCompute ComputePipelineCacheKey
  | AssertionFailed
  | Unimplemented

text \<open>
  Dereferencing a null \<open>Shader\<close> or an empty \<open>std::optional\<close> is undefined behaviour;
  the model stops there with an error.
\<close>

datatype error = NullShaderDereferenced | EmptyOptionalDereferenced

text \<open>
  Objects and pointers. A \<open>Shader\<close> is a \<open>std::shared_ptr<CachedShader>\<close>: an index into
  the list of the shader objects made so far (\<open>None\<close> for a null pointer). A pipeline is
  owned by the \<open>std::unique_ptr\<close> of its map entry: it lives at an address, the live
  pipelines are the association list \<open>graphics_objects\<close> (\<open>compute_objects\<close>), and
  \<open>erase\<close> takes it out of that list. Addresses are handed out once. The raw pointer
  \<open>last_graphics_pipeline\<close> is an address or \<open>None\<close> for \<open>nullptr\<close>. An
  \<open>std::unordered_map\<close> is an association list, walked from its head. The field
  \<open>map_cache\<close> is the registry of the base class \<open>RasterizerCache\<close>.
\<close>

record VKPipelineCache =
  map_cache :: "(HostPtr \<times> nat) list"
  shader_objects :: "CachedShader list"
  last_shaders :: "nat option list"
  last_graphics_key :: GraphicsPipelineCacheKey
  last_graphics_pipeline :: "nat option"
  graphics_cache :: "(GraphicsPipelineCacheKey \<times> nat) list"
  compute_cache :: "(ComputePipelineCacheKey \<times> nat) list"
  graphics_objects :: "(nat \<times> VKGraphicsPipeline) list"
  compute_objects :: "(nat \<times> VKComputePipeline) list"
  next_address :: nat
  events :: "event list"

text \<open>
  Modelled from the spec: the Shader Registry (the base class \<open>RasterizerCache\<close>, with
  \<open>TryGet\<close>, \<open>Register\<close> and \<open>Unregister\<close>) is not in this file. The specification
  describes it as a store of Shader Units keyed by the backing-memory pointer, with
  lookup, insertion and removal of a unit.
\<close>

definition TryGet :: "VKPipelineCache \<Rightarrow> HostPtr \<Rightarrow> nat option" where
  "TryGet s host_ptr = map_of (map_cache s) host_ptr"

text \<open>Modelled from the spec: \<open>Register\<close> stores the unit under its backing pointer.\<close>

definition Register :: "nat \<Rightarrow> VKPipelineCache \<Rightarrow> VKPipelineCache" where
  "Register shader s =
     s\<lparr>map_cache := (sh_host_ptr (shader_objects s ! shader), shader) # map_cache s\<rparr>"

text \<open>
  Modelled from the spec: the registry's own \<open>Unregister\<close>, which \<open>VKPipelineCache::Unregister\<close>
  calls last, removes the unit.
\<close>

definition RasterizerCache_Unregister :: "nat \<Rightarrow> VKPipelineCache \<Rightarrow> VKPipelineCache" where
  "RasterizerCache_Unregister shader s =
     s\<lparr>map_cache :=
         filter (\<lambda>(host_ptr, _). host_ptr \<noteq> sh_host_ptr (shader_objects s ! shader))
           (map_cache s)\<rparr>"

text \<open>\<open>std::make_shared<CachedShader>\<close>: the new object and the pointer to it.\<close>

definition make_shared :: "CachedShader \<Rightarrow> VKPipelineCache \<Rightarrow> nat \<times> VKPipelineCache" where
  "make_shared object s =
     (length (shader_objects s), s\<lparr>shader_objects := shader_objects s @ [object]\<rparr>)"

subsection \<open>GetShaders\<close>

definition stage_offset :: u32 where
  "stage_offset = 10"

function GetShaders_loop ::
    "System \<Rightarrow> Collaborators \<Rightarrow> nat \<Rightarrow> nat option list \<times> VKPipelineCache \<Rightarrow>
     error + nat option list \<times> VKPipelineCache" where
  "GetShaders_loop system ext index (shaders, s) =
     (if index < MaxShaderProgram then
        (let program = program_of_index index in
         if \<not> sys_IsShaderConfigEnabled system index then
           GetShaders_loop system ext (index + 1) (shaders, s)
         else
           (let program_addr = GetShaderAddress system program;
                host_ptr = GetPointer (sys_memory_manager system) program_addr
            in case TryGet s host_ptr of
                 Some shader \<Rightarrow>
                   GetShaders_loop system ext (index + 1) (shaders[index := Some shader], s)
               | None \<Rightarrow>
                   (let stage = stage_of_index (if index = 0 then 0 else index - 1);
                        code = GetShaderCode (ext_MAX_PROGRAM_LENGTH ext) (sys_memory_manager system)
                                 program_addr host_ptr False
                    in case GpuToCpuAddress (sys_memory_manager system) program_addr of
                         None \<Rightarrow> Inl EmptyOptionalDereferenced
                       | Some cpu_addr \<Rightarrow>
                           (let (shader, s) =
                                  make_shared (new_CachedShader ext stage program_addr cpu_addr
                                                 host_ptr code stage_offset) s;
                                s = Register shader s
                            in GetShaders_loop system ext (index + 1)
                                 (shaders[index := Some shader], s)))))
      else Inr (shaders, s))"
  by pat_completeness auto
termination
  by (relation "measure (\<lambda>(system, ext, index, st). MaxShaderProgram - index)") auto

declare GetShaders_loop.simps [simp del]

definition GetShaders ::
    "System \<Rightarrow> Collaborators \<Rightarrow> VKPipelineCache \<Rightarrow> error + nat option list \<times> VKPipelineCache" where
  "GetShaders system ext s =
     (case GetShaders_loop system ext 0 (replicate MaxShaderProgram None, s) of
        Inl e \<Rightarrow> Inl e
      | Inr (shaders, s) \<Rightarrow> Inr (shaders, s\<lparr>last_shaders := shaders\<rparr>))"

subsection \<open>DecompileShaders\<close>

text \<open>
  The loop state: the specialization (its \<open>base_binding\<close> runs through the stages), the
  program, the bindings and the reports made so far. The loop counter is advanced once
  more inside the body after a \<open>VertexA\<close> program. \<open>0.0f\<close> is the pattern 0 or the
  pattern of the negative zero. The loop that copies the type of each vertex attribute
  into the specialization, element by element between two arrays of one size, is one
  assignment of the list.
\<close>

type_synonym DecompileShaders_state =
  "Specialization \<times> SPIRVProgram \<times> DescriptorSetLayoutBinding list \<times> event list"

function DecompileShaders_loop ::
    "System \<Rightarrow> Collaborators \<Rightarrow> VKPipelineCache \<Rightarrow> nat \<Rightarrow> DecompileShaders_state \<Rightarrow>
     error + SPIRVProgram \<times> DescriptorSetLayoutBinding list \<times> event list" where
  "DecompileShaders_loop system ext s index (specialization, program, bindings, evs) =
     (if index < MaxShaderProgram then
        (let program_enum = program_of_index index in
         if \<not> sys_IsShaderConfigEnabled system index then
           DecompileShaders_loop system ext s (index + 1) (specialization, program, bindings, evs)
         else
           (let gpu_addr = GetShaderAddress system program_enum;
                host_ptr = GetPointer (sys_memory_manager system) gpu_addr
            in case TryGet s host_ptr of
                 None \<Rightarrow> Inl NullShaderDereferenced
               | Some shader_ref \<Rightarrow>
                   (let shader = shader_objects s ! shader_ref;
                        stage = (if index = 0 then 0 else index - 1);
                        (program_type, unimplemented) = GetShaderType program_enum;
                        evs = (if unimplemented then evs @ [Unimplemented] else evs);
                        entries = sh_entries shader;
                        program = program[stage :=
                          Some \<lparr>sp_code = ext_Decompile ext (sh_shader_ir shader) program_type
                                             (sh_registry shader) specialization,
                                 sp_entries = entries\<rparr>];
                        index = (if program_enum = VertexA then index + 1 else index);
                        old_binding = spec_base_binding specialization;
                        (bindings, new_binding) =
                          FillDescriptorLayout entries bindings program_enum
                            (spec_base_binding specialization);
                        specialization = specialization\<lparr>spec_base_binding := new_binding\<rparr>;
                        evs = (if old_binding + NumBindings entries
                                    = spec_base_binding specialization
                               then evs else evs @ [AssertionFailed])
                    in DecompileShaders_loop system ext s (index + 1)
                         (specialization, program, bindings, evs))))
      else Inr (program, bindings, evs))"
  by pat_completeness auto
termination
  by (relation "measure (\<lambda>(system, ext, s, index, st). MaxShaderProgram - index)")
     (auto split: prod.splits)

declare DecompileShaders_loop.simps [simp del]

definition is_zero_float :: "f32 \<Rightarrow> bool" where
  "is_zero_float x = (x = 0 \<or> x = 0x80000000)"

definition DecompileShaders ::
    "System \<Rightarrow> Collaborators \<Rightarrow> VKPipelineCache \<Rightarrow> GraphicsPipelineCacheKey \<Rightarrow>
     error + SPIRVProgram \<times> DescriptorSetLayoutBinding list \<times> event list" where
  "DecompileShaders system ext s key =
     (let fixed_state = gk_fixed_state key;
          specialization = default_Specialization;
          evs = [];
          (specialization, evs) =
            (if fs_topology fixed_state = Points then
               (specialization\<lparr>spec_point_size := Some (fs_point_size fixed_state)\<rparr>,
                if is_zero_float (fs_point_size fixed_state) then evs @ [AssertionFailed]
                else evs)
             else (specialization, evs));
          specialization =
            specialization\<lparr>spec_attribute_types := fs_attribute_types fixed_state\<rparr>;
          specialization =
            specialization\<lparr>spec_ndc_minus_one_to_one := fs_ndc_minus_one_to_one fixed_state\<rparr>
      in DecompileShaders_loop system ext s 0
           (specialization, replicate MaxShaderStage None, [], evs))"

subsection \<open>GetGraphicsPipeline\<close>

text \<open>
  The part of \<open>GetGraphicsPipeline\<close> after the test of the memo: the assignment of
  \<open>last_graphics_key\<close>, \<open>try_emplace\<close>, and on a miss the log line, \<open>DecompileShaders\<close>
  and the new pipeline. The result is the address of the pipeline the function returns a
  reference to, and the state.
\<close>

definition GetGraphicsPipeline_lookup ::
    "System \<Rightarrow> Collaborators \<Rightarrow> GraphicsPipelineCacheKey \<Rightarrow> VKPipelineCache \<Rightarrow>
     error + nat \<times> VKPipelineCache" where
  "GetGraphicsPipeline_lookup system ext key s0 =
     (let s = s0\<lparr>last_graphics_key := key\<rparr> in
      case map_of (graphics_cache s) key of
        Some entry \<Rightarrow> Inr (entry, s\<lparr>last_graphics_pipeline := Some entry\<rparr>)
      | None \<Rightarrow>
          (let s = s\<lparr>events := events s @ [LogCompileGraphics key]\<rparr> in
           case DecompileShaders system ext s key of
             Inl e \<Rightarrow> Inl e
           | Inr (program, bindings, evs) \<Rightarrow>
               (let entry = next_address s;
                    pipeline = \<lparr>gp_key = key, gp_bindings = bindings, gp_program = program\<rparr>;
                    s = s\<lparr>events := events s @ evs,
                          next_address := entry + 1,
                          graphics_objects := graphics_objects s @ [(entry, pipeline)],
                          graphics_cache := graphics_cache s @ [(key, entry)]\<rparr>
                in Inr (entry, s\<lparr>last_graphics_pipeline := Some entry\<rparr>))))"

definition GetGraphicsPipeline ::
    "System \<Rightarrow> Collaborators \<Rightarrow> GraphicsPipelineCacheKey \<Rightarrow> VKPipelineCache \<Rightarrow>
     error + nat \<times> VKPipelineCache" where
  "GetGraphicsPipeline system ext key s =
     (case last_graphics_pipeline s of
        Some pipeline \<Rightarrow>
          if last_graphics_key s = key then Inr (pipeline, s)
          else GetGraphicsPipeline_lookup system ext key s
      | None \<Rightarrow> GetGraphicsPipeline_lookup system ext key s)"

subsection \<open>GetComputePipeline\<close>



subsection \<open>Unregister\<close>

text \<open>
  The lambda \<open>Finish\<close>, on the flag it captures and the state: it calls
  \<open>scheduler.Finish()\<close> unless the flag is set.
\<close>

definition Finish :: "bool \<times> VKPipelineCache \<Rightarrow> bool \<times> VKPipelineCache" where
  "Finish fs =
     (case fs of (finished, s) \<Rightarrow>
        if finished then (finished, s)
        else (True, s\<lparr>events := events s @ [SchedulerFinish]\<rparr>))"

text \<open>
  The two loops walk the entries of a map from \<open>begin()\<close> to \<open>end()\<close>; \<open>++it\<close> leaves the
  entry in the map, \<open>erase(it)\<close> takes it out and destroys the pipeline it owns.
\<close>

fun Unregister_graphics_loop ::
    "GPUVAddr \<Rightarrow> (GraphicsPipelineCacheKey \<times> nat) list \<Rightarrow> bool \<times> VKPipelineCache \<Rightarrow>
     bool \<times> VKPipelineCache" where
  "Unregister_graphics_loop invalidated_addr [] fs = fs"
| "Unregister_graphics_loop invalidated_addr ((entry, pipeline) # rest) fs =
     (if invalidated_addr \<notin> set (gk_shaders entry) then
        Unregister_graphics_loop invalidated_addr rest fs
      else
        (case Finish fs of (finished, s) \<Rightarrow>
           Unregister_graphics_loop invalidated_addr rest
             (finished,
              s\<lparr>graphics_cache := remove1 (entry, pipeline) (graphics_cache s),
                graphics_objects := filter (\<lambda>(a, _). a \<noteq> pipeline) (graphics_objects s),
                events := events s @ [EraseGraphics entry]\<rparr>)))"

fun Unregister_compute_loop ::
    "GPUVAddr \<Rightarrow> (ComputePipelineCacheKey \<times> nat) list \<Rightarrow> bool \<times> VKPipelineCache \<Rightarrow>
     bool \<times> VKPipelineCache" where
  "Unregister_compute_loop invalidated_addr [] fs = fs"
| "Unregister_compute_loop invalidated_addr ((entry, pipeline) # rest) fs =
     (if ck_shader entry \<noteq> invalidated_addr then
        Unregister_compute_loop invalidated_addr rest fs
      else
        (case Finish fs of (finished, s) \<Rightarrow>
           Unregister_compute_loop invalidated_addr rest
             (finished,
              s\<lparr>compute_cache := remove1 (entry, pipeline) (compute_cache s),
                compute_objects := filter (\<lambda>(a, _). a \<noteq> pipeline) (compute_objects s),
                events := events s @ [EraseCompute entry]\<rparr>)))"

text \<open>\<open>Unregister(shader)\<close>; \<open>shader\<close> is dereferenced, so it must be an object.\<close>

definition Unregister :: "nat option \<Rightarrow> VKPipelineCache \<Rightarrow> error + VKPipelineCache" where
  "Unregister shader s =
     (case shader of
        None \<Rightarrow> Inl NullShaderDereferenced
      | Some shader_ref \<Rightarrow>
          (let finished = False;
               invalidated_addr = sh_gpu_addr (shader_objects s ! shader_ref);
               (finished, s) =
                 Unregister_graphics_loop invalidated_addr (graphics_cache s) (finished, s);
               (finished, s) =
                 Unregister_compute_loop invalidated_addr (compute_cache s) (finished, s)
           in Inr (RasterizerCache_Unregister shader_ref s)))"

subsection \<open>Notions for the statements about the cache\<close>

text \<open>An event that reports the removal of a map entry.\<close>

definition is_erase :: "event \<Rightarrow> bool" where
  "is_erase e = (case e of EraseGraphics _ \<Rightarrow> True | EraseCompute _ \<Rightarrow> True | _ \<Rightarrow> False)"

text \<open>
  Collaborators, keys, pipelines and a cache state for the examples. The state
  \<open>purge_example\<close> has one shader, at GPU address \<open>0x100\<close>, three graphics entries and one
  compute entry that refer to it, and one graphics and one compute entry that do not.
\<close>

definition example_ext :: Collaborators where
  "example_ext =
     \<lparr>ext_MAX_PROGRAM_LENGTH = 8,
      ext_GenerateShaderEntries = (\<lambda>ir. one_const_buffer),
      ext_Decompile = (\<lambda>ir stage registry specialization.
         of_nat (length (ir_program_code ir)) # spec_base_binding specialization #
         map ucast (ir_program_code ir))\<rparr>"

definition example_fixed_state :: FixedPipelineState where
  "example_fixed_state =
     \<lparr>fs_topology = OtherTopology 4, fs_point_size = 0, fs_attribute_types = [],
      fs_ndc_minus_one_to_one = False, fs_remaining = 0\<rparr>"

definition example_graphics_key :: "GPUVAddr \<Rightarrow> GPUVAddr \<Rightarrow> nat \<Rightarrow> GraphicsPipelineCacheKey" where
  "example_graphics_key vertex fragment n =
     \<lparr>gk_fixed_state = example_fixed_state\<lparr>fs_remaining := n\<rparr>,
      gk_shaders = [0, vertex, 0, 0, 0, fragment]\<rparr>"

definition example_compute_key :: "GPUVAddr \<Rightarrow> u32 \<Rightarrow> ComputePipelineCacheKey" where
  "example_compute_key a n =
     \<lparr>ck_shader = a, ck_shared_memory_size = n, ck_workgroup_size = [8, 8, 1]\<rparr>"

definition example_graphics_pipeline :: "GraphicsPipelineCacheKey \<Rightarrow> VKGraphicsPipeline" where
  "example_graphics_pipeline key =
     \<lparr>gp_key = key, gp_bindings = [], gp_program = replicate MaxShaderStage None\<rparr>"

definition example_compute_pipeline :: VKComputePipeline where
  "example_compute_pipeline = \<lparr>cp_shader = \<lparr>sp_code = [], sp_entries = one_const_buffer\<rparr>\<rparr>"

definition purge_example :: VKPipelineCache where
  "purge_example =
     \<lparr>map_cache = [(0x7100, 0)],
      shader_objects = [new_CachedShader example_ext Vertex 0x100 0x9100 0x7100 [1, 1, 0] 10],
      last_shaders = replicate MaxShaderProgram None,
      last_graphics_key = example_graphics_key 0 0 0,
      last_graphics_pipeline = None,
      graphics_cache =
        [(example_graphics_key 0x100 0x300 0, 0), (example_graphics_key 0x200 0x300 0, 1),
         (example_graphics_key 0x200 0x100 0, 2), (example_graphics_key 0x100 0x100 1, 3)],
      compute_cache = [(example_compute_key 0x100 0, 4), (example_compute_key 0x200 0, 5)],
      graphics_objects =
        [(0, example_graphics_pipeline (example_graphics_key 0x100 0x300 0)),
         (1, example_graphics_pipeline (example_graphics_key 0x200 0x300 0)),
         (2, example_graphics_pipeline (example_graphics_key 0x200 0x100 0)),
         (3, example_graphics_pipeline (example_graphics_key 0x100 0x100 1))],
      compute_objects = [(4, example_compute_pipeline), (5, example_compute_pipeline)],
      next_address = 6,
      events = []\<rparr>"

text \<open>
  A system for the examples: the programs \<open>VertexB\<close> (index 1, at \<open>0x100\<close>) and
  \<open>Fragment\<close> (index 5, at \<open>0x300\<close>) are enabled. \<open>initial_cache\<close> is the cache as its
  constructor leaves it.
\<close>

definition example_system :: System where
  "example_system =
     \<lparr>sys_memory_manager = example_memory,
      sys_IsShaderConfigEnabled = (\<lambda>index. index = 1 \<or> index = 5),
      sys_CodeAddress = 0x100,
      sys_shader_config_offset = (\<lambda>index. if index = 5 then 0x200 else 0)\<rparr>"

definition initial_cache :: VKPipelineCache where
  "initial_cache =
     \<lparr>map_cache = [], shader_objects = [],
      last_shaders = replicate MaxShaderProgram None,
      last_graphics_key = example_graphics_key 0 0 0,
      last_graphics_pipeline = None,
      graphics_cache = [], compute_cache = [],
      graphics_objects = [], compute_objects = [],
      next_address = 0, events = []\<rparr>"

text \<open>
  The states the example runs through: after \<open>GetShaders\<close>, after the first
  \<open>GetGraphicsPipeline\<close>, and after a \<open>GetGraphicsPipeline\<close> with a second key.
\<close>

definition example_shaders :: "CachedShader list" where
  "example_shaders =
     [new_CachedShader example_ext Vertex 0x100 0x100 0x1100 [1, 1, 0, 1, 1, 1, 1, 1] 10,
      new_CachedShader example_ext Fragment 0x300 0x300 0x1300 [1, 1, 0, 1, 1, 1, 1, 1] 10]"

definition cache_with_shaders :: VKPipelineCache where
  "cache_with_shaders =
     initial_cache\<lparr>map_cache := [(0x1300, 1), (0x1100, 0)],
                   shader_objects := example_shaders,
                   last_shaders := [None, Some 0, None, None, None, Some 1]\<rparr>"

definition example_pipeline :: VKGraphicsPipeline where
  "example_pipeline =
     \<lparr>gp_key = example_graphics_key 0x100 0x300 0,
      gp_bindings =
        [\<lparr>lb_binding = 0, lb_descriptorType = eUniformBuffer, lb_descriptorCount = 1,
          lb_stageFlags = ShaderStage Vertex\<rparr>,
         \<lparr>lb_binding = 1, lb_descriptorType = eUniformBuffer, lb_descriptorCount = 1,
          lb_stageFlags = ShaderStage Fragment\<rparr>],
      gp_program =
        [Some \<lparr>sp_code = [8, 0, 1, 1, 0, 1, 1, 1, 1, 1], sp_entries = one_const_buffer\<rparr>,
         None, None, None,
         Some \<lparr>sp_code = [8, 1, 1, 1, 0, 1, 1, 1, 1, 1], sp_entries = one_const_buffer\<rparr>]\<rparr>"

definition cache_with_pipeline :: VKPipelineCache where
  "cache_with_pipeline =
     cache_with_shaders
       \<lparr>last_graphics_key := example_graphics_key 0x100 0x300 0,
        last_graphics_pipeline := Some 0,
        graphics_cache := [(example_graphics_key 0x100 0x300 0, 0)],
        graphics_objects := [(0, example_pipeline)],
        next_address := 1,
        events := [LogCompileGraphics (example_graphics_key 0x100 0x300 0)]\<rparr>"

text \<open>
  The states of a second run: \<open>cache_with_pipeline\<close> after \<open>Unregister\<close> of the shader at
  \<open>0x100\<close>, then after \<open>GetShaders\<close>, then after \<open>GetGraphicsPipeline\<close> for a second key,
  then after \<open>GetGraphicsPipeline\<close> for the first key.
\<close>

definition stale_cache :: VKPipelineCache where
  "stale_cache =
     cache_with_pipeline
       \<lparr>map_cache := [(0x1300, 1)],
        graphics_cache := [],
        graphics_objects := [],
        events := [LogCompileGraphics (example_graphics_key 0x100 0x300 0), SchedulerFinish,
                   EraseGraphics (example_graphics_key 0x100 0x300 0)]\<rparr>"

definition stale_cache_with_shaders :: VKPipelineCache where
  "stale_cache_with_shaders =
     stale_cache
       \<lparr>map_cache := [(0x1100, 2), (0x1300, 1)],
        shader_objects :=
          example_shaders @
          [new_CachedShader example_ext Vertex 0x100 0x100 0x1100 [1, 1, 0, 1, 1, 1, 1, 1] 10],
        last_shaders := [None, Some 2, None, None, None, Some 1]\<rparr>"

definition stale_cache_second_key :: VKPipelineCache where
  "stale_cache_second_key =
     stale_cache_with_shaders
       \<lparr>last_graphics_key := example_graphics_key 0x100 0x300 1,
        last_graphics_pipeline := Some 1,
        graphics_cache := [(example_graphics_key 0x100 0x300 1, 1)],
        graphics_objects :=
          [(1, example_pipeline\<lparr>gp_key := example_graphics_key 0x100 0x300 1\<rparr>)],
        next_address := 2,
        events := events stale_cache @
                  [LogCompileGraphics (example_graphics_key 0x100 0x300 1)]\<rparr>"

definition stale_cache_recompiled :: VKPipelineCache where
  "stale_cache_recompiled =
     stale_cache_second_key
       \<lparr>last_graphics_key := example_graphics_key 0x100 0x300 0,
        last_graphics_pipeline := Some 2,
        graphics_cache :=
          [(example_graphics_key 0x100 0x300 1, 1), (example_graphics_key 0x100 0x300 0, 2)],
        graphics_objects :=
          [(1, example_pipeline\<lparr>gp_key := example_graphics_key 0x100 0x300 1\<rparr>),
           (2, example_pipeline)],
        next_address := 3,
        events := events stale_cache @
                  [LogCompileGraphics (example_graphics_key 0x100 0x300 1),
                   LogCompileGraphics (example_graphics_key 0x100 0x300 0)]\<rparr>"

text \<open>An event that reports the compilation of a graphics pipeline.\<close>

definition is_compile_graphics :: "event \<Rightarrow> bool" where
  "is_compile_graphics e = (case e of LogCompileGraphics _ \<Rightarrow> True | _ \<Rightarrow> False)"

text \<open>
  The memo slot agrees with the map: if \<open>last_graphics_pipeline\<close> is not null, the map has
  \<open>last_graphics_key\<close> with that pipeline.
\<close>

definition memo_coherent :: "VKPipelineCache \<Rightarrow> bool" where
  "memo_coherent s =
     (case last_graphics_pipeline s of
        None \<Rightarrow> True
      | Some p \<Rightarrow> map_of (graphics_cache s) (last_graphics_key s) = Some p)"

text \<open>A sequence of calls of \<open>GetGraphicsPipeline\<close>, one per key; the state after the last.\<close>

fun GetGraphicsPipelines ::
    "System \<Rightarrow> Collaborators \<Rightarrow> GraphicsPipelineCacheKey list \<Rightarrow> VKPipelineCache \<Rightarrow>
     error + VKPipelineCache" where
  "GetGraphicsPipelines system ext [] s = Inr s"
| "GetGraphicsPipelines system ext (key # keys) s =
     (case GetGraphicsPipeline system ext key s of
        Inl e \<Rightarrow> Inl e
      | Inr (p, s1) \<Rightarrow> GetGraphicsPipelines system ext keys s1)"

definition cache_with_two_pipelines :: VKPipelineCache where
  "cache_with_two_pipelines =
     cache_with_pipeline
       \<lparr>last_graphics_key := example_graphics_key 0x100 0x300 1,
        last_graphics_pipeline := Some 1,
        graphics_cache :=
          [(example_graphics_key 0x100 0x300 0, 0), (example_graphics_key 0x100 0x300 1, 1)],
        graphics_objects :=
          [(0, example_pipeline),
           (1, example_pipeline\<lparr>gp_key := example_graphics_key 0x100 0x300 1\<rparr>)],
        next_address := 2,
        events := [LogCompileGraphics (example_graphics_key 0x100 0x300 0),
                   LogCompileGraphics (example_graphics_key 0x100 0x300 1)]\<rparr>"

text \<open>
  The host pointer that \<open>GetShaders\<close> and \<open>DecompileShaders\<close> look up for the program
  with a given index.
\<close>

definition host_ptr_of_program :: "System \<Rightarrow> nat \<Rightarrow> HostPtr" where
  "host_ptr_of_program system index =
     GetPointer (sys_memory_manager system) (GetShaderAddress system (program_of_index index))"




text \<open>
  One pass of the body of the loop of \<open>DecompileShaders\<close> for an enabled program whose
  shader was found, as a function of the loop state. The assertion on \<open>base_binding\<close>
  holds (see \<open>FillDescriptorLayout_next\<close>), so it reports nothing.
\<close>

definition stage_step ::
    "Collaborators \<Rightarrow> CachedShader \<Rightarrow> nat \<Rightarrow> DecompileShaders_state \<Rightarrow> DecompileShaders_state" where
  "stage_step ext shader index st =
     (case st of (specialization, program, bindings, evs) \<Rightarrow>
        (let program_enum = program_of_index index;
             filled = FillDescriptorLayout (sh_entries shader) bindings program_enum
                        (spec_base_binding specialization)
         in (specialization\<lparr>spec_base_binding := snd filled\<rparr>,
             program[(if index = 0 then 0 else index - 1) :=
               Some \<lparr>sp_code = ext_Decompile ext (sh_shader_ir shader)
                                  (fst (GetShaderType program_enum)) (sh_registry shader)
                                  specialization,
                      sp_entries = sh_entries shader\<rparr>],
             fst filled,
             (if snd (GetShaderType program_enum) then evs @ [Unimplemented] else evs))))"

text \<open>
  An example with \<open>VertexA\<close> (at \<open>0x100\<close>), \<open>VertexB\<close> (at \<open>0x200\<close>) and \<open>Fragment\<close>
  (at \<open>0x300\<close>) enabled; every code word of a shader is the address of the shader, so
  that the code in a pipeline tells which shader it came from.
\<close>

definition vertex_ab_memory :: MemoryManager where
  "vertex_ab_memory =
     \<lparr>GetPointer = (\<lambda>a. a + 0x1000), GpuToCpuAddress = (\<lambda>a. Some a),
      ReadBlockUnsafe = (\<lambda>a i. a)\<rparr>"

definition vertex_ab_system :: System where
  "vertex_ab_system =
     \<lparr>sys_memory_manager = vertex_ab_memory,
      sys_IsShaderConfigEnabled = (\<lambda>index. index = 0 \<or> index = 1 \<or> index = 5),
      sys_CodeAddress = 0x100,
      sys_shader_config_offset =
        (\<lambda>index. if index = 1 then 0x100 else if index = 5 then 0x200 else 0)\<rparr>"

definition vertex_ab_shaders :: "CachedShader list" where
  "vertex_ab_shaders =
     [new_CachedShader example_ext Vertex 0x100 0x100 0x1100
        [0x100, 0x100, 0x100, 0x100, 0x100, 0x100, 0x100, 0x100] 10,
      new_CachedShader example_ext Vertex 0x200 0x200 0x1200
        [0x200, 0x200, 0x200, 0x200, 0x200, 0x200, 0x200, 0x200] 10,
      new_CachedShader example_ext Fragment 0x300 0x300 0x1300
        [0x300, 0x300, 0x300, 0x300, 0x300, 0x300, 0x300, 0x300] 10]"

definition vertex_ab_cache :: VKPipelineCache where
  "vertex_ab_cache =
     initial_cache\<lparr>map_cache := [(0x1300, 2), (0x1200, 1), (0x1100, 0)],
                   shader_objects := vertex_ab_shaders,
                   last_shaders := [Some 0, Some 1, None, None, None, Some 2]\<rparr>"

definition vertex_ab_program :: SPIRVProgram where
  "vertex_ab_program =
     [Some \<lparr>sp_code = [8, 0, 0x100, 0x100, 0x100, 0x100, 0x100, 0x100, 0x100, 0x100],
            sp_entries = one_const_buffer\<rparr>,
      None, None, None,
      Some \<lparr>sp_code = [8, 1, 0x300, 0x300, 0x300, 0x300, 0x300, 0x300, 0x300, 0x300],
            sp_entries = one_const_buffer\<rparr>]"

subsection \<open>Properties of the program length\<close>

lemma IsSchedInstruction_iff:
  "main_offset \<le> offset \<Longrightarrow>
   IsSchedInstruction offset main_offset = ((offset - main_offset) mod 4 = 0)"
proof -
  assume le: "main_offset \<le> offset"
  define d where "d = offset - main_offset"
  have eq: "(2::nat) ^ 64 + offset - main_offset = d + 4 * 2 ^ 62"
    using le by (simp add: d_def)
  have "(d + 4 * 2 ^ 62) mod 2 ^ 64 mod 4 = (d + 4 * 2 ^ 62) mod 4"
    by (rule mod_mod_cancel) simp
  also have "\<dots> = d mod 4"
    by (rule mod_mult_self2)
  finally have "((2::nat) ^ 64 + offset - main_offset) mod 2 ^ 64 mod 4 = d mod 4"
    by (simp only: eq)
  then show ?thesis
    unfolding IsSchedInstruction_def Let_def d_def by (simp only:)
qed

lemma loop_step_terminator:
  "terminator_at program origin offset \<Longrightarrow>
   CalculateProgramSize_loop program origin offset = offset"
  by (subst CalculateProgramSize_loop.simps)
     (auto simp: terminator_at_def IsSchedInstruction_iff mask_def self_jumping_branch_def)

lemma loop_step_continue:
  "origin \<le> offset \<Longrightarrow> offset < length program \<Longrightarrow> \<not> terminator_at program origin offset \<Longrightarrow>
   CalculateProgramSize_loop program origin offset =
   CalculateProgramSize_loop program origin (offset + 1)"
  by (subst CalculateProgramSize_loop.simps)
     (auto simp: terminator_at_def IsSchedInstruction_iff mask_def self_jumping_branch_def Let_def)

lemma loop_step_end:
  "length program \<le> offset \<Longrightarrow> CalculateProgramSize_loop program origin offset = offset"
  by (subst CalculateProgramSize_loop.simps) simp

lemma loop_finds_first:
  "origin \<le> offset \<Longrightarrow> offset \<le> i \<Longrightarrow> terminator_at program origin i \<Longrightarrow>
   (\<forall>j. offset \<le> j \<and> j < i \<longrightarrow> \<not> terminator_at program origin j) \<Longrightarrow>
   CalculateProgramSize_loop program origin offset = i"
proof (induction "i - offset" arbitrary: offset)
  case 0
  then have "offset = i" by simp
  with 0 show ?case by (simp add: loop_step_terminator)
next
  case (Suc d)
  then have lt: "offset < i" by simp
  have "i < length program" using Suc.prems(3) by (simp add: terminator_at_def)
  with lt have in_range: "offset < length program" by simp
  have not_term: "\<not> terminator_at program origin offset" using Suc.prems(4) lt by simp
  have "CalculateProgramSize_loop program origin offset =
        CalculateProgramSize_loop program origin (offset + 1)"
    using Suc.prems(1) in_range not_term by (rule loop_step_continue)
  also have "\<dots> = i"
  proof (rule Suc.hyps(1))
    show "d = i - (offset + 1)" using Suc.hyps(2) by simp
    show "origin \<le> offset + 1" using Suc.prems(1) by simp
    show "offset + 1 \<le> i" using lt by simp
    show "terminator_at program origin i" by (rule Suc.prems(3))
    show "\<forall>j. offset + 1 \<le> j \<and> j < i \<longrightarrow> \<not> terminator_at program origin j"
      using Suc.prems(4) by simp
  qed
  finally show ?case .
qed

lemma loop_no_terminator:
  "origin \<le> offset \<Longrightarrow> (\<forall>j. offset \<le> j \<longrightarrow> \<not> terminator_at program origin j) \<Longrightarrow>
   CalculateProgramSize_loop program origin offset = max offset (length program)"
proof (induction "length program - offset" arbitrary: offset)
  case 0
  then show ?case by (simp add: loop_step_end max_def)
next
  case (Suc d)
  then have in_range: "offset < length program" by simp
  have "CalculateProgramSize_loop program origin offset =
        CalculateProgramSize_loop program origin (offset + 1)"
    using Suc.prems(1) in_range Suc.prems(2) by (simp add: loop_step_continue)
  also have "\<dots> = max (offset + 1) (length program)"
  proof (rule Suc.hyps(1))
    show "d = length program - (offset + 1)" using Suc.hyps(2) by simp
    show "origin \<le> offset + 1" using Suc.prems(1) by simp
    show "\<forall>j. offset + 1 \<le> j \<longrightarrow> \<not> terminator_at program origin j"
      using Suc.prems(2) by simp
  qed
  finally show ?case using in_range by (simp add: max_def)
qed

lemma CalculateProgramSize_at_first:
  assumes "terminator_at program (scan_origin is_compute) i"
    and "\<forall>j<i. \<not> terminator_at program (scan_origin is_compute) j"
  shows "CalculateProgramSize program is_compute = i + 1"
proof -
  let ?o = "scan_origin is_compute"
  from assms(1) have le: "?o \<le> i" and lt: "i < length program"
    by (simp_all add: terminator_at_def)
  have "CalculateProgramSize_loop program ?o ?o = i"
    using le assms by (intro loop_finds_first) auto
  then show ?thesis
    using lt by (simp add: CalculateProgramSize_def scan_origin_def Let_def)
qed

lemma CalculateProgramSize_none:
  assumes "\<forall>j. \<not> terminator_at program (scan_origin is_compute) j"
  shows "CalculateProgramSize program is_compute = length program"
proof -
  let ?o = "scan_origin is_compute"
  have "CalculateProgramSize_loop program ?o ?o = max ?o (length program)"
    using assms by (intro loop_no_terminator) auto
  then show ?thesis
    by (simp add: CalculateProgramSize_def scan_origin_def Let_def)
qed

lemma scheduler_slot_no_terminator:
  "\<not> terminator_at program origin (origin + 4 * n)"
  by (simp add: terminator_at_def)

text \<open>
  Claim C5. \<open>CalculateProgramSize\<close> scans from word 10 (graphics) or word 0 (compute);
  a word counts as a terminator only outside the scheduler slots, when it is the
  self-branch under the mask or zero. The result is the index of the first terminator
  plus one, and the size of the buffer when there is no terminator.
\<close>

theorem CalculateProgramSize_first_terminator:
  "scan_origin True = 0 \<and> scan_origin False = 10 \<and>
   (terminator_at program (scan_origin is_compute) i \<and>
    (\<forall>j<i. \<not> terminator_at program (scan_origin is_compute) j)
      \<longrightarrow> CalculateProgramSize program is_compute = i + 1) \<and>
   ((\<forall>j. \<not> terminator_at program (scan_origin is_compute) j)
      \<longrightarrow> CalculateProgramSize program is_compute = length program)"
proof (intro conjI impI)
  show "scan_origin True = 0" and "scan_origin False = 10"
    by (simp_all add: scan_origin_def)
next
  assume "terminator_at program (scan_origin is_compute) i \<and>
    (\<forall>j<i. \<not> terminator_at program (scan_origin is_compute) j)"
  then show "CalculateProgramSize program is_compute = i + 1"
    using CalculateProgramSize_at_first [of program is_compute i] by blast
next
  assume "\<forall>j. \<not> terminator_at program (scan_origin is_compute) j"
  then show "CalculateProgramSize program is_compute = length program"
    by (rule CalculateProgramSize_none)
qed

theorem CalculateProgramSize_first_terminator_witness:
  "CalculateProgramSize [0,0,0,0,0,0,0,0,0,0, 0, 1, 0xE2400FFFFF87000F, 5] False = 13 \<and>
   CalculateProgramSize [1, 1, 0, 1] True = 3 \<and>
   CalculateProgramSize [0, 1, 2, 3] True = 4"
proof (intro conjI)
  let ?p = "[0,0,0,0,0,0,0,0,0,0, 0, 1, 0xE2400FFFFF87000F, 5] :: ProgramCode"
  have t: "terminator_at ?p (scan_origin False) 12"
    by (simp add: terminator_at_def scan_origin_def)
  have n: "\<forall>j<12. \<not> terminator_at ?p (scan_origin False) j"
  proof (intro allI impI notI)
    fix j :: nat assume "j < 12" and a: "terminator_at ?p (scan_origin False) j"
    then have "j = 10 \<or> j = 11" by (auto simp: terminator_at_def scan_origin_def)
    then show False using a
      by (auto simp: terminator_at_def scan_origin_def)
  qed
  show "CalculateProgramSize ?p False = 13"
    using CalculateProgramSize_first_terminator [of ?p False 12] t n by simp
next
  let ?p = "[1, 1, 0, 1] :: ProgramCode"
  have t: "terminator_at ?p (scan_origin True) 2"
    by (simp add: terminator_at_def scan_origin_def)
  have n: "\<forall>j<2. \<not> terminator_at ?p (scan_origin True) j"
  proof (intro allI impI)
    fix j :: nat assume "j < 2"
    then have "j = 0 \<or> j = 1" by arith
    then show "\<not> terminator_at ?p (scan_origin True) j"
      by (auto simp: terminator_at_def scan_origin_def)
  qed
  show "CalculateProgramSize ?p True = 3"
    using CalculateProgramSize_first_terminator [of ?p True 2] t n by simp
next
  let ?p = "[0, 1, 2, 3] :: ProgramCode"
  have n: "\<forall>j. \<not> terminator_at ?p (scan_origin True) j"
  proof (intro allI notI)
    fix j assume a: "terminator_at ?p (scan_origin True) j"
    then have "j < 4" by (simp add: terminator_at_def)
    then have "j = 0 \<or> j = 1 \<or> j = 2 \<or> j = 3" by arith
    with a show False
      by (auto simp: terminator_at_def scan_origin_def)
  qed
  show "CalculateProgramSize ?p True = 4"
    using CalculateProgramSize_first_terminator [of ?p True] n by simp
qed

text \<open>
  Claim C4, as stated, fails: the word at index \<open>mainOffset + 4\<close> is itself a scheduler
  slot, so a self-branch there is skipped. In the compute buffer below (scan origin 0)
  the word at index 4 is the self-branch, the words before it do not terminate, and the
  result is 8, the size of the buffer, not 5.
\<close>

theorem sentinel_in_scheduler_slot_counterexample:
  "[1, 1, 1, 1, 0xE2400FFFFF07000F, 1, 1, 1] ! (scan_origin True + 4) = self_jumping_branch \<and>
   \<not> terminator_at [1, 1, 1, 1, 0xE2400FFFFF07000F, 1, 1, 1] (scan_origin True) 1 \<and>
   \<not> terminator_at [1, 1, 1, 1, 0xE2400FFFFF07000F, 1, 1, 1] (scan_origin True) 2 \<and>
   \<not> terminator_at [1, 1, 1, 1, 0xE2400FFFFF07000F, 1, 1, 1] (scan_origin True) 3 \<and>
   CalculateProgramSize [1, 1, 1, 1, 0xE2400FFFFF07000F, 1, 1, 1] True = 8 \<and>
   CalculateProgramSize [1, 1, 1, 1, 0xE2400FFFFF07000F, 1, 1, 1] True \<noteq> scan_origin True + 5"
proof -
  let ?p = "[1, 1, 1, 1, 0xE2400FFFFF07000F, 1, 1, 1] :: ProgramCode"
  have n: "\<forall>j. \<not> terminator_at ?p (scan_origin True) j"
  proof (intro allI notI)
    fix j assume a: "terminator_at ?p (scan_origin True) j"
    then have "j < 8" by (simp add: terminator_at_def)
    then have "j = 0 \<or> j = 1 \<or> j = 2 \<or> j = 3 \<or> j = 4 \<or> j = 5 \<or> j = 6 \<or> j = 7" by arith
    with a show False
      by (auto simp: terminator_at_def scan_origin_def)
  qed
  have r: "CalculateProgramSize ?p True = 8"
    using CalculateProgramSize_none [OF n] by simp
  show ?thesis
    using n r by (simp add: scan_origin_def self_jumping_branch_def)
qed

text \<open>
  Claim C4, amended. A self-branch at \<open>mainOffset + 4\<close>, as at every index
  \<open>mainOffset + 4 * n\<close>, is in a scheduler slot and is no terminator. When the
  self-branch (under the mask) is at \<open>mainOffset + k\<close> with \<open>k\<close> not a multiple of 4,
  and no word before it is a terminator, the result is \<open>mainOffset + k + 1\<close>: the
  sentinel is included.
\<close>

theorem CalculateProgramSize_sentinel:
  "\<not> terminator_at program (scan_origin is_compute) (scan_origin is_compute + 4) \<and>
   (k mod 4 \<noteq> 0 \<and> scan_origin is_compute + k < length program \<and>
    program ! (scan_origin is_compute + k) AND mask = self_jumping_branch \<and>
    (\<forall>j < scan_origin is_compute + k. \<not> terminator_at program (scan_origin is_compute) j)
    \<longrightarrow> CalculateProgramSize program is_compute = scan_origin is_compute + k + 1)"
proof (intro conjI impI)
  show "\<not> terminator_at program (scan_origin is_compute) (scan_origin is_compute + 4)"
    using scheduler_slot_no_terminator [of program "scan_origin is_compute" 1] by simp
next
  assume a: "k mod 4 \<noteq> 0 \<and> scan_origin is_compute + k < length program \<and>
    program ! (scan_origin is_compute + k) AND mask = self_jumping_branch \<and>
    (\<forall>j < scan_origin is_compute + k. \<not> terminator_at program (scan_origin is_compute) j)"
  then have "terminator_at program (scan_origin is_compute) (scan_origin is_compute + k)"
    by (simp add: terminator_at_def mask_def self_jumping_branch_def)
  with a show "CalculateProgramSize program is_compute = scan_origin is_compute + k + 1"
    by (simp add: CalculateProgramSize_at_first)
qed

theorem CalculateProgramSize_sentinel_witness:
  "[1, 1, 1, 1, 1, 0xE2400FFFFF07000F, 1, 1] ! (scan_origin True + 5) AND mask
     = self_jumping_branch \<and>
   CalculateProgramSize [1, 1, 1, 1, 1, 0xE2400FFFFF07000F, 1, 1] True = scan_origin True + 5 + 1"
proof -
  let ?p = "[1, 1, 1, 1, 1, 0xE2400FFFFF07000F, 1, 1] :: ProgramCode"
  have s: "?p ! (scan_origin True + 5) AND mask = self_jumping_branch"
    by (simp add: scan_origin_def mask_def self_jumping_branch_def)
  have n: "\<forall>j < scan_origin True + 5. \<not> terminator_at ?p (scan_origin True) j"
  proof (intro allI impI)
    fix j :: nat assume "j < scan_origin True + 5"
    then have "j = 0 \<or> j = 1 \<or> j = 2 \<or> j = 3 \<or> j = 4"
      by (simp add: scan_origin_def) arith
    then show "\<not> terminator_at ?p (scan_origin True) j"
      by (auto simp: terminator_at_def scan_origin_def)
  qed
  have r: "(5::nat) mod 4 \<noteq> 0 \<and> scan_origin True + 5 < length ?p"
    by (simp add: scan_origin_def)
  show ?thesis
    using CalculateProgramSize_sentinel [of ?p True 5] s n r by simp
qed

subsection \<open>Properties of the descriptor layout\<close>

lemma AddBindings_loop_eq:
  "i \<le> n \<Longrightarrow>
   AddBindings_loop dt sz fl c n i (bs @ layout_segment dt sz fl c b i, b + of_nat i) =
   (bs @ layout_segment dt sz fl c b n, b + of_nat n)"
proof (induction "n - i" arbitrary: i)
  case 0
  then have "i = n" by simp
  then show ?case by (subst AddBindings_loop.simps) simp
next
  case (Suc d)
  then have lt: "i < n" by simp
  have seg: "layout_segment dt sz fl c b (Suc i) =
             layout_segment dt sz fl c b i @
               [\<lparr>lb_binding = b + of_nat i, lb_descriptorType = dt,
                 lb_descriptorCount = (if dt = eCombinedImageSampler then sz (c ! i) else 1),
                 lb_stageFlags = fl\<rparr>]"
    by (simp add: layout_segment_def)
  have "AddBindings_loop dt sz fl c n i (bs @ layout_segment dt sz fl c b i, b + of_nat i) =
        AddBindings_loop dt sz fl c n (Suc i)
          (bs @ layout_segment dt sz fl c b (Suc i), b + of_nat (Suc i))"
    using lt by (subst AddBindings_loop.simps) (simp add: seg Let_def add.commute add.left_commute)
  also have "\<dots> = (bs @ layout_segment dt sz fl c b n, b + of_nat n)"
    using Suc.hyps(2) lt by (intro Suc.hyps(1)) simp_all
  finally show ?case .
qed

lemma AddBindings_eq:
  "AddBindings dt sz (bs, b) fl c =
   (bs @ layout_segment dt sz fl c b (unat (of_nat (length c) :: u32)),
    b + of_nat (length c))"
proof -
  let ?n = "unat (of_nat (length c) :: u32)"
  have "AddBindings_loop dt sz fl c ?n 0 (bs @ layout_segment dt sz fl c b 0, b + of_nat 0) =
        (bs @ layout_segment dt sz fl c b ?n, b + of_nat ?n)"
    by (rule AddBindings_loop_eq) simp
  moreover have "(of_nat ?n :: u32) = of_nat (length c)"
    by simp
  moreover have "layout_segment dt sz fl c b 0 = []"
    by (simp add: layout_segment_def)
  ultimately show ?thesis
    by (simp add: AddBindings_def)
qed

lemma unat_of_nat_u32: "n < 2 ^ 32 \<Longrightarrow> unat (of_nat n :: u32) = n"
  by (simp add: unat_of_nat)

lemma length_layout_segment [simp]: "length (layout_segment dt sz fl c b n) = n"
  by (simp add: layout_segment_def)

lemma types_layout_segment:
  "map lb_descriptorType (layout_segment dt sz fl c b n) = replicate n dt"
  by (simp add: layout_segment_def comp_def map_replicate_const)

lemma flags_layout_segment:
  "map lb_stageFlags (layout_segment dt sz fl c b n) = replicate n fl"
  by (simp add: layout_segment_def comp_def map_replicate_const)

lemma counts_layout_segment_one:
  "dt \<noteq> eCombinedImageSampler \<Longrightarrow>
   map lb_descriptorCount (layout_segment dt sz fl c b n) = replicate n 1"
  by (simp add: layout_segment_def comp_def map_replicate_const)

lemma counts_layout_segment_sampler:
  "map lb_descriptorCount (layout_segment eCombinedImageSampler sz fl c b (length c)) = map sz c"
proof -
  have "map sz c = map sz (map ((!) c) [0 ..< length c])"
    by (simp only: map_nth)
  then show ?thesis
    by (simp add: layout_segment_def comp_def)
qed

lemma indices_layout_segment:
  "map lb_binding (layout_segment dt sz fl c b n) = map (\<lambda>k. b + of_nat k) [0 ..< n]"
  by (simp add: layout_segment_def comp_def)

lemma indices_append:
  "map (\<lambda>k. (b :: u32) + of_nat k) [0 ..< m] @ map (\<lambda>k. (b + of_nat m) + of_nat k) [0 ..< n] =
   map (\<lambda>k. b + of_nat k) [0 ..< m + n]"
proof (induction n)
  case 0
  show ?case by simp
next
  case (Suc n)
  have "(b + of_nat m) + of_nat n = b + of_nat (m + n)"
    by (simp only: of_nat_add add.assoc)
  with Suc show ?case
    by (simp only: upt_Suc_append le0 add_Suc_right map_append list.map append_assoc [symmetric] if_True le_add1 trans_le_add1)
qed

lemma word_base_shift: "((b :: u32) + of_nat m) + of_nat n = b + of_nat (m + n)"
  by (simp only: of_nat_add add.assoc)

lemma FillDescriptorLayout_eq:
  fixes entries :: ShaderEntries and program_type :: ShaderProgram
  assumes "sizes_fit_u32 entries"
  defines "n1 \<equiv> length (const_buffers entries)"
    and "n2 \<equiv> length (global_buffers entries)"
    and "n3 \<equiv> length (texel_buffers entries)"
    and "n4 \<equiv> length (samplers entries)"
    and "n5 \<equiv> length (images entries)"
    and "fl \<equiv> ShaderStage (GetStageFromProgram program_type)"
  shows "FillDescriptorLayout entries bindings program_type b =
     (bindings @
        (layout_segment eUniformBuffer (\<lambda>_. 1) fl (const_buffers entries) b n1 @
         layout_segment eStorageBuffer (\<lambda>_. 1) fl (global_buffers entries) (b + of_nat n1) n2 @
         layout_segment eUniformTexelBuffer (\<lambda>_. 1) fl (texel_buffers entries)
           (b + of_nat (n1 + n2)) n3 @
         layout_segment eCombinedImageSampler Size fl (samplers entries)
           (b + of_nat (n1 + n2 + n3)) n4 @
         layout_segment eStorageImage (\<lambda>_. 1) fl (images entries)
           (b + of_nat (n1 + n2 + n3 + n4)) n5),
      b + of_nat (n1 + n2 + n3 + n4 + n5))"
proof -
  have fits: "unat (of_nat n1 :: u32) = n1" "unat (of_nat n2 :: u32) = n2"
    "unat (of_nat n3 :: u32) = n3" "unat (of_nat n4 :: u32) = n4" "unat (of_nat n5 :: u32) = n5"
    using assms(1) unfolding sizes_fit_u32_def n1_def n2_def n3_def n4_def n5_def
    by (simp_all only: unat_of_nat_u32)
  show ?thesis
    unfolding FillDescriptorLayout_def Let_def AddBindings_eq
    unfolding n1_def [symmetric] n2_def [symmetric] n3_def [symmetric] n4_def [symmetric]
      n5_def [symmetric] fl_def [symmetric] fits word_base_shift
    by (simp only: append_assoc)
qed

lemma FillDescriptorLayout_next:
  "snd (FillDescriptorLayout entries bindings program_type b) = b + NumBindings entries"
  unfolding FillDescriptorLayout_def Let_def AddBindings_eq NumBindings_def snd_conv
    word_base_shift ..

lemma unat_base_plus:
  "unat (b :: u32) + n \<le> 2 ^ 32 \<Longrightarrow> i < n \<Longrightarrow> unat (b + of_nat i) = unat b + i"
proof -
  assume a: "unat b + n \<le> 2 ^ 32" and i: "i < n"
  then have "unat b + i < 2 ^ 32" by simp
  then show ?thesis
    by (simp add: unat_word_ariths unat_of_nat)
qed

text \<open>
  Claim C6. \<open>FillDescriptorLayout\<close> appends, after the bindings it was given, one
  binding per declared resource, in the order constant buffers, storage buffers, texel
  buffers, samplers, storage images; a sampler's binding has the sampler's array size as
  its count and every other binding has count 1; the \<open>i\<close>-th new binding has index
  \<open>base_binding + i\<close> (strictly increasing as long as the \<open>u32\<close> counter does not wrap);
  and the returned binding is \<open>base_binding\<close> plus the number of declared resources, which
  is the condition that \<open>DecompileShaders\<close> asserts.
  The container sizes are cast to \<open>u32\<close> by the source, hence \<open>sizes_fit_u32\<close>.
\<close>

theorem FillDescriptorLayout_slots:
  fixes entries :: ShaderEntries
  defines "n \<equiv> declared_resources entries"
  shows
  "base_binding + NumBindings entries =
     snd (FillDescriptorLayout entries bindings program_type base_binding) \<and>
   snd (FillDescriptorLayout entries bindings program_type base_binding) - base_binding =
     NumBindings entries \<and>
   (sizes_fit_u32 entries \<longrightarrow>
     (let bindings' = fst (FillDescriptorLayout entries bindings program_type base_binding);
          new = drop (length bindings) bindings'
      in take (length bindings) bindings' = bindings \<and>
         length new = n \<and>
         map lb_descriptorType new =
           replicate (length (const_buffers entries)) eUniformBuffer @
           replicate (length (global_buffers entries)) eStorageBuffer @
           replicate (length (texel_buffers entries)) eUniformTexelBuffer @
           replicate (length (samplers entries)) eCombinedImageSampler @
           replicate (length (images entries)) eStorageImage \<and>
         map lb_descriptorCount new =
           replicate (length (const_buffers entries)) 1 @
           replicate (length (global_buffers entries)) 1 @
           replicate (length (texel_buffers entries)) 1 @
           map Size (samplers entries) @
           replicate (length (images entries)) 1 \<and>
         map lb_binding new = map (\<lambda>i. base_binding + of_nat i) [0 ..< n] \<and>
         map lb_stageFlags new = replicate n (ShaderStage (GetStageFromProgram program_type)) \<and>
         (unat base_binding + n \<le> 2 ^ 32 \<longrightarrow>
            (\<forall>i<n. unat (lb_binding (new ! i)) = unat base_binding + i))))"
proof (intro conjI impI)
  show "base_binding + NumBindings entries =
     snd (FillDescriptorLayout entries bindings program_type base_binding)"
    by (simp only: FillDescriptorLayout_next)
  show "snd (FillDescriptorLayout entries bindings program_type base_binding) - base_binding =
     NumBindings entries"
    by (simp only: FillDescriptorLayout_next add_diff_cancel_left')
next
  assume fit: "sizes_fit_u32 entries"
  let ?fl = "ShaderStage (GetStageFromProgram program_type)"
  let ?n1 = "length (const_buffers entries)"
  let ?n2 = "length (global_buffers entries)"
  let ?n3 = "length (texel_buffers entries)"
  let ?n4 = "length (samplers entries)"
  let ?n5 = "length (images entries)"
  define new where "new =
         layout_segment eUniformBuffer (\<lambda>_. 1) ?fl (const_buffers entries) base_binding ?n1 @
         layout_segment eStorageBuffer (\<lambda>_. 1) ?fl (global_buffers entries)
           (base_binding + of_nat ?n1) ?n2 @
         layout_segment eUniformTexelBuffer (\<lambda>_. 1) ?fl (texel_buffers entries)
           (base_binding + of_nat (?n1 + ?n2)) ?n3 @
         layout_segment eCombinedImageSampler Size ?fl (samplers entries)
           (base_binding + of_nat (?n1 + ?n2 + ?n3)) ?n4 @
         layout_segment eStorageImage (\<lambda>_. 1) ?fl (images entries)
           (base_binding + of_nat (?n1 + ?n2 + ?n3 + ?n4)) ?n5"
  have eq: "fst (FillDescriptorLayout entries bindings program_type base_binding) =
            bindings @ new"
    unfolding new_def FillDescriptorLayout_eq [OF fit] fst_conv ..
  have len: "length new = n"
    by (simp add: new_def n_def declared_resources_def)
  have types: "map lb_descriptorType new =
           replicate ?n1 eUniformBuffer @ replicate ?n2 eStorageBuffer @
           replicate ?n3 eUniformTexelBuffer @ replicate ?n4 eCombinedImageSampler @
           replicate ?n5 eStorageImage"
    unfolding new_def map_append types_layout_segment ..
  have counts: "map lb_descriptorCount new =
           replicate ?n1 1 @ replicate ?n2 1 @ replicate ?n3 1 @
           map Size (samplers entries) @ replicate ?n5 1"
    unfolding new_def map_append
    by (simp only: counts_layout_segment_one counts_layout_segment_sampler
          DescriptorType.distinct not_False_eq_True)
  have idx: "map lb_binding new = map (\<lambda>i. base_binding + of_nat i) [0 ..< n]"
    unfolding new_def map_append indices_layout_segment n_def declared_resources_def
    by (simp only: indices_append append_assoc [symmetric])
  have flags: "map lb_stageFlags new = replicate n ?fl"
    unfolding new_def map_append flags_layout_segment n_def declared_resources_def
    by (simp only: replicate_add append_assoc)
  have mono: "\<forall>i<n. unat (lb_binding (new ! i)) = unat base_binding + i"
    if "unat base_binding + n \<le> 2 ^ 32"
  proof (intro allI impI)
    fix i assume i: "i < n"
    have "lb_binding (new ! i) = map lb_binding new ! i"
      using i len by simp
    also have "\<dots> = base_binding + of_nat i"
      using i by (simp only: idx) simp
    finally show "unat (lb_binding (new ! i)) = unat base_binding + i"
      using unat_base_plus [OF that i] by simp
  qed
  show "let bindings' = fst (FillDescriptorLayout entries bindings program_type base_binding);
          new = drop (length bindings) bindings'
      in take (length bindings) bindings' = bindings \<and>
         length new = n \<and>
         map lb_descriptorType new =
           replicate (length (const_buffers entries)) eUniformBuffer @
           replicate (length (global_buffers entries)) eStorageBuffer @
           replicate (length (texel_buffers entries)) eUniformTexelBuffer @
           replicate (length (samplers entries)) eCombinedImageSampler @
           replicate (length (images entries)) eStorageImage \<and>
         map lb_descriptorCount new =
           replicate (length (const_buffers entries)) 1 @
           replicate (length (global_buffers entries)) 1 @
           replicate (length (texel_buffers entries)) 1 @
           map Size (samplers entries) @
           replicate (length (images entries)) 1 \<and>
         map lb_binding new = map (\<lambda>i. base_binding + of_nat i) [0 ..< n] \<and>
         map lb_stageFlags new = replicate n (ShaderStage (GetStageFromProgram program_type)) \<and>
         (unat base_binding + n \<le> 2 ^ 32 \<longrightarrow>
            (\<forall>i<n. unat (lb_binding (new ! i)) = unat base_binding + i))"
    unfolding Let_def eq
    using len types counts idx flags mono by simp
qed

lemma example_manifest_fits: "sizes_fit_u32 example_manifest"
    by (simp add: sizes_fit_u32_def example_manifest_def)
lemma example_manifest_resources: "declared_resources example_manifest = 7"
    by (simp add: declared_resources_def example_manifest_def)
lemma example_manifest_NumBindings: "NumBindings example_manifest = 7"
    by (simp add: NumBindings_def example_manifest_def)
lemma example_no_overflow: "unat (0 :: u32) + 7 \<le> 2 ^ 32" by simp

lemma upt7: "[0 ..< 7] = [0, 1, 2, 3, 4, 5, 6 :: nat]"
    by (simp add: upt_rec)

text \<open>
  The witness is the manifest of the specification's example: 7 slots, bindings 0 to 6,
  with the counts 1, 1, 1, 1, 1, 2, 1 (8 bound elements).
\<close>

theorem FillDescriptorLayout_slots_witness:
  "sizes_fit_u32 example_manifest \<and>
   declared_resources example_manifest = 7 \<and>
   snd (FillDescriptorLayout example_manifest [] VertexB 0) = 7 \<and>
   length (fst (FillDescriptorLayout example_manifest [] VertexB 0)) = 7 \<and>
   map lb_binding (fst (FillDescriptorLayout example_manifest [] VertexB 0)) =
     [0, 1, 2, 3, 4, 5, 6] \<and>
   map lb_descriptorCount (fst (FillDescriptorLayout example_manifest [] VertexB 0)) =
     [1, 1, 1, 1, 1, 2, 1] \<and>
   map lb_descriptorType (fst (FillDescriptorLayout example_manifest [] VertexB 0)) =
     [eUniformBuffer, eUniformBuffer, eUniformTexelBuffer, eCombinedImageSampler,
      eCombinedImageSampler, eCombinedImageSampler, eStorageImage] \<and>
   unat (lb_binding (fst (FillDescriptorLayout example_manifest [] VertexB 0) ! 6)) = 6"
proof -
  let ?r = "FillDescriptorLayout example_manifest [] VertexB 0"
  note t = FillDescriptorLayout_slots [of 0 example_manifest "[]" VertexB]
  have nxt: "snd ?r = 7"
    using t [THEN conjunct1] by (simp only: example_manifest_NumBindings add_0)
  note body = t [THEN conjunct2, THEN conjunct2, THEN mp, OF example_manifest_fits,
      unfolded Let_def list.size drop_0 example_manifest_resources]
  have len: "length (fst ?r) = 7"
    using body by (simp only:)
  have idx: "map lb_binding (fst ?r) = [0, 1, 2, 3, 4, 5, 6]"
    using body [THEN conjunct2, THEN conjunct2, THEN conjunct2, THEN conjunct2, THEN conjunct1]
    by (simp add: upt7)
  have cnt: "map lb_descriptorCount (fst ?r) = [1, 1, 1, 1, 1, 2, 1]"
    using body [THEN conjunct2, THEN conjunct2, THEN conjunct2, THEN conjunct1]
    by (simp add: example_manifest_def)
  have tys: "map lb_descriptorType (fst ?r) =
     [eUniformBuffer, eUniformBuffer, eUniformTexelBuffer, eCombinedImageSampler,
      eCombinedImageSampler, eCombinedImageSampler, eStorageImage]"
    using body [THEN conjunct2, THEN conjunct2, THEN conjunct1]
    by (simp add: example_manifest_def)
  have six: "unat (lb_binding (fst ?r ! 6)) = 6"
    using body [THEN conjunct2, THEN conjunct2, THEN conjunct2, THEN conjunct2, THEN conjunct2,
       THEN conjunct2, THEN mp, OF example_no_overflow, rule_format, of 6]
    by simp
  show ?thesis
    using example_manifest_fits example_manifest_resources nxt len idx cnt tys six by (simp only: simp_thms)
qed

subsection \<open>Properties of the shader code fetch\<close>

lemma CalculateProgramSize_le: "CalculateProgramSize program is_compute \<le> length program"
  by (simp add: CalculateProgramSize_def Let_def)

lemma resize_take: "n \<le> length code \<Longrightarrow> resize code n = take n code"
  by (simp add: resize_def)

lemma zero_block_size:
  "2 \<le> n \<Longrightarrow> CalculateProgramSize (replicate n 0) True = 2"
proof -
  assume n: "2 \<le> n"
  have t: "terminator_at (replicate n 0) (scan_origin True) 1"
    using n by (simp add: terminator_at_def scan_origin_def)
  have f: "\<forall>j<1. \<not> terminator_at (replicate n 0) (scan_origin True) j"
    by (simp add: terminator_at_def scan_origin_def)
  show ?thesis
    using CalculateProgramSize_at_first [OF t f] by simp
qed

text \<open>
  Claim C8, as stated, fails: with a null host pointer the block of \<open>ASSERT_OR_EXECUTE\<close>
  returns the zero-filled buffer at once, before the call of \<open>CalculateProgramSize\<close>.
  With \<open>MAX_PROGRAM_LENGTH = 0x1000\<close> the result has 4096 words, while the estimator
  gives 2 for that buffer.
\<close>

theorem GetShaderCode_null_untrimmed_counterexample:
  "GetShaderCode 4096 null_memory 0 nullptr True = replicate 4096 0 \<and>
   length (GetShaderCode 4096 null_memory 0 nullptr True) = 4096 \<and>
   CalculateProgramSize (replicate 4096 0) True = 2 \<and>
   length (GetShaderCode 4096 null_memory 0 nullptr True)
     \<noteq> CalculateProgramSize (replicate 4096 0) True"
proof -
  have r: "GetShaderCode 4096 null_memory 0 nullptr True = replicate 4096 0"
    by (simp add: GetShaderCode_def Let_def)
  have z: "CalculateProgramSize (replicate 4096 0) True = 2"
    by (rule zero_block_size) simp
  show ?thesis
    by (simp only: r z length_replicate) simp
qed

text \<open>
  Claim C8, amended. With a null host pointer \<open>GetShaderCode\<close> returns the zero-filled
  buffer of \<open>MAX_PROGRAM_LENGTH\<close> words, untrimmed. With any other host pointer it
  returns the block read from memory, cut to the length that \<open>CalculateProgramSize\<close>
  gives for it.
\<close>

theorem GetShaderCode_cases:
  "(host_ptr = nullptr \<longrightarrow>
      GetShaderCode MAX_PROGRAM_LENGTH memory_manager gpu_addr host_ptr is_compute =
      replicate MAX_PROGRAM_LENGTH 0) \<and>
   (host_ptr \<noteq> nullptr \<longrightarrow>
      (let block = map (ReadBlockUnsafe memory_manager gpu_addr) [0 ..< MAX_PROGRAM_LENGTH]
       in GetShaderCode MAX_PROGRAM_LENGTH memory_manager gpu_addr host_ptr is_compute =
          take (CalculateProgramSize block is_compute) block))"
proof (intro conjI impI)
  assume "host_ptr = nullptr"
  then show "GetShaderCode MAX_PROGRAM_LENGTH memory_manager gpu_addr host_ptr is_compute =
      replicate MAX_PROGRAM_LENGTH 0"
    by (simp add: GetShaderCode_def Let_def)
next
  assume "host_ptr \<noteq> nullptr"
  then show "let block = map (ReadBlockUnsafe memory_manager gpu_addr) [0 ..< MAX_PROGRAM_LENGTH]
       in GetShaderCode MAX_PROGRAM_LENGTH memory_manager gpu_addr host_ptr is_compute =
          take (CalculateProgramSize block is_compute) block"
    by (simp add: GetShaderCode_def Let_def resize_take CalculateProgramSize_le)
qed

lemma upt8: "[0 ..< 8] = [0, 1, 2, 3, 4, 5, 6, 7 :: nat]"
  by (simp add: upt_rec)

lemma example_block:
  "map (ReadBlockUnsafe example_memory 0x40) [0 ..< 8] = [1, 1, 0, 1, 1, 1, 1, 1]"
  by (simp add: upt8 example_memory_def)

lemma example_block_size: "CalculateProgramSize [1, 1, 0, 1, 1, 1, 1, 1] True = 3"
proof -
  let ?p = "[1, 1, 0, 1, 1, 1, 1, 1] :: ProgramCode"
  have t: "terminator_at ?p (scan_origin True) 2"
    by (simp add: terminator_at_def scan_origin_def)
  have n: "\<forall>j<2. \<not> terminator_at ?p (scan_origin True) j"
  proof (intro allI impI)
    fix j :: nat assume "j < 2"
    then have "j = 0 \<or> j = 1" by arith
    then show "\<not> terminator_at ?p (scan_origin True) j"
      by (auto simp: terminator_at_def scan_origin_def)
  qed
  show ?thesis using CalculateProgramSize_at_first [OF t n] by simp
qed

theorem GetShaderCode_cases_witness:
  "GetShaderCode 8 example_memory 0x40 nullptr True = [0, 0, 0, 0, 0, 0, 0, 0] \<and>
   GetPointer example_memory 0x40 \<noteq> nullptr \<and>
   GetShaderCode 8 example_memory 0x40 (GetPointer example_memory 0x40) True = [1, 1, 0]"
proof -
  have p: "GetPointer example_memory 0x40 \<noteq> nullptr"
    by (simp add: example_memory_def nullptr_def)
  have a: "GetShaderCode 8 example_memory 0x40 nullptr True = replicate 8 0"
    using GetShaderCode_cases [of nullptr 8 example_memory "0x40" True] by simp
  have b: "GetShaderCode 8 example_memory 0x40 (GetPointer example_memory 0x40) True = [1, 1, 0]"
    using GetShaderCode_cases [of "GetPointer example_memory 0x40" 8 example_memory "0x40" True] p
    by (simp add: Let_def example_block example_block_size)
  have r: "replicate 8 (0 :: u64) = [0, 0, 0, 0, 0, 0, 0, 0]"
    by (simp add: numeral_eq_Suc)
  show ?thesis using a b p r by simp
qed

subsection \<open>The descriptor update template at a concrete input\<close>

lemma AddEntry_sampler_loop_done:
  "AddEntry_sampler_loop sz entry_size container 0 0 s = s"
  by (cases s) (simp add: AddEntry_sampler_loop.simps)

lemma AddEntry_texel_loop_done:
  "AddEntry_texel_loop entry_size bnd off 0 0 template_entries = template_entries"
  by (simp add: AddEntry_texel_loop.simps)

lemma AddEntry_empty:
  "AddEntry descriptor_type sz entry_size s [] = s"
  by (cases s)
     (simp add: AddEntry_def Let_def AddEntry_sampler_loop_done AddEntry_texel_loop_done)

lemma AddEntry_one_buffer:
  "AddEntry eUniformBuffer sz entry_size (template_entries, bnd, off) [x] =
   (template_entries @
      [\<lparr>te_dstBinding = bnd, te_dstArrayElement = 0, te_descriptorCount = 1,
        te_descriptorType = eUniformBuffer, te_offset = ucast off,
        te_stride = ucast entry_size\<rparr>],
    bnd + 1, off + entry_size)"
  by (simp add: AddEntry_def Let_def)

text \<open>
  Claim C2 at two concrete inputs, for a manifest with one constant buffer and an entry
  size of 24 bytes. With \<open>binding = 2\<close> and \<open>offset = 48\<close> the entry produced has 48, the
  caller's \<open>offset\<close>, as its binding and 2, the caller's \<open>binding\<close>, as its byte offset;
  afterwards \<open>binding\<close> is 26 (advanced by the entry size) and \<open>offset\<close> is 49 (advanced
  by the count). With both counters 0 the entry is the expected one, and the counters
  come back as \<open>binding = 24\<close> and \<open>offset = 1\<close>.
\<close>

theorem FillDescriptorUpdateTemplateEntries_swapped:
  "FillDescriptorUpdateTemplateEntries 24 one_const_buffer 2 48 [] =
     (26, 49,
      [\<lparr>te_dstBinding = 48, te_dstArrayElement = 0, te_descriptorCount = 1,
        te_descriptorType = eUniformBuffer, te_offset = 2, te_stride = 24\<rparr>]) \<and>
   FillDescriptorUpdateTemplateEntries 24 one_const_buffer 0 0 [] =
     (24, 1,
      [\<lparr>te_dstBinding = 0, te_dstArrayElement = 0, te_descriptorCount = 1,
        te_descriptorType = eUniformBuffer, te_offset = 0, te_stride = 24\<rparr>])"
  by (simp add: FillDescriptorUpdateTemplateEntries_def one_const_buffer_def
        AddEntry_empty AddEntry_one_buffer)

subsection \<open>Properties of Unregister\<close>

lemma remove1_after_kept:
  "x \<notin> set kept \<Longrightarrow> remove1 x (kept @ x # rest) = kept @ rest"
  by (induction kept) auto

lemma Unregister_graphics_loop_eq:
  assumes "graphics_cache s = kept @ rest"
    and "\<forall>(k, p) \<in> set kept. A \<notin> set (gk_shaders k)"
  shows "Unregister_graphics_loop A rest (fin, s) =
     (fin \<or> filter (\<lambda>(k, p). A \<in> set (gk_shaders k)) rest \<noteq> [],
      s\<lparr>graphics_cache := kept @ filter (\<lambda>(k, p). A \<notin> set (gk_shaders k)) rest,
        graphics_objects :=
          filter (\<lambda>(a, _). a \<notin> snd ` set (filter (\<lambda>(k, p). A \<in> set (gk_shaders k)) rest))
            (graphics_objects s),
        events := events s @
          (if \<not> fin \<and> filter (\<lambda>(k, p). A \<in> set (gk_shaders k)) rest \<noteq> []
           then [SchedulerFinish] else []) @
          map (\<lambda>(k, p). EraseGraphics k) (filter (\<lambda>(k, p). A \<in> set (gk_shaders k)) rest)\<rparr>)"
  using assms
proof (induction rest arbitrary: fin s kept)
  case Nil
  then show ?case by simp
next
  case (Cons x rest)
  obtain k p where x: "x = (k, p)" by (cases x)
  show ?case
  proof (cases "A \<in> set (gk_shaders k)")
    case False
    have "graphics_cache s = (kept @ [x]) @ rest" using Cons.prems(1) by simp
    moreover have "\<forall>(k, p) \<in> set (kept @ [x]). A \<notin> set (gk_shaders k)"
      using Cons.prems(2) False x by auto
    ultimately have "Unregister_graphics_loop A rest (fin, s) = 
     (fin \<or> filter (\<lambda>(k, p). A \<in> set (gk_shaders k)) rest \<noteq> [],
      s\<lparr>graphics_cache := (kept @ [x]) @ filter (\<lambda>(k, p). A \<notin> set (gk_shaders k)) rest,
        graphics_objects :=
          filter (\<lambda>(a, _). a \<notin> snd ` set (filter (\<lambda>(k, p). A \<in> set (gk_shaders k)) rest))
            (graphics_objects s),
        events := events s @
          (if \<not> fin \<and> filter (\<lambda>(k, p). A \<in> set (gk_shaders k)) rest \<noteq> []
           then [SchedulerFinish] else []) @
          map (\<lambda>(k, p). EraseGraphics k) (filter (\<lambda>(k, p). A \<in> set (gk_shaders k)) rest)\<rparr>)"
      by (rule Cons.IH)
    then show ?thesis using False x by simp
  next
    case True
    have notin: "x \<notin> set kept" using Cons.prems(2) True x by auto
    obtain s1 where f: "Finish (fin, s) = (True, s1)"
      and s1: "s1 = (if fin then s else s\<lparr>events := events s @ [SchedulerFinish]\<rparr>)"
      by (simp add: Finish_def)
    define s2 where "s2 = s1\<lparr>graphics_cache := remove1 (k, p) (graphics_cache s1),
                graphics_objects := filter (\<lambda>(a, _). a \<noteq> p) (graphics_objects s1),
                events := events s1 @ [EraseGraphics k]\<rparr>"
    have gc: "graphics_cache s2 = kept @ rest"
      using Cons.prems(1) notin x by (simp add: s2_def s1 remove1_after_kept)
    have step: "Unregister_graphics_loop A (x # rest) (fin, s) =
                Unregister_graphics_loop A rest (True, s2)"
      using True x f by (simp add: s2_def)
    have "Unregister_graphics_loop A rest (True, s2) = 
     (True \<or> filter (\<lambda>(k, p). A \<in> set (gk_shaders k)) rest \<noteq> [],
      s2\<lparr>graphics_cache := kept @ filter (\<lambda>(k, p). A \<notin> set (gk_shaders k)) rest,
        graphics_objects :=
          filter (\<lambda>(a, _). a \<notin> snd ` set (filter (\<lambda>(k, p). A \<in> set (gk_shaders k)) rest))
            (graphics_objects s2),
        events := events s2 @
          (if \<not> True \<and> filter (\<lambda>(k, p). A \<in> set (gk_shaders k)) rest \<noteq> []
           then [SchedulerFinish] else []) @
          map (\<lambda>(k, p). EraseGraphics k) (filter (\<lambda>(k, p). A \<in> set (gk_shaders k)) rest)\<rparr>)"
      using gc Cons.prems(2) by (rule Cons.IH)
    moreover have "filter (\<lambda>(a, _). a \<notin> snd ` set (filter (\<lambda>(k, p). A \<in> set (gk_shaders k)) rest))
            (filter (\<lambda>(a, _). a \<noteq> p) (graphics_objects s)) =
          filter (\<lambda>(a, _). a \<notin> snd ` set (filter (\<lambda>(k, p). A \<in> set (gk_shaders k)) (x # rest)))
            (graphics_objects s)"
      using True x by (auto intro: filter_cong)
    ultimately show ?thesis
      using True x step by (simp add: s2_def s1)
  qed
qed

lemma Unregister_compute_loop_eq:
  assumes "compute_cache s = kept @ rest"
    and "\<forall>(k, p) \<in> set kept. ck_shader k \<noteq> A"
  shows "Unregister_compute_loop A rest (fin, s) =
     (fin \<or> filter (\<lambda>(k, p). ck_shader k = A) rest \<noteq> [],
      s\<lparr>compute_cache := kept @ filter (\<lambda>(k, p). ck_shader k \<noteq> A) rest,
        compute_objects :=
          filter (\<lambda>(a, _). a \<notin> snd ` set (filter (\<lambda>(k, p). ck_shader k = A) rest))
            (compute_objects s),
        events := events s @
          (if \<not> fin \<and> filter (\<lambda>(k, p). ck_shader k = A) rest \<noteq> []
           then [SchedulerFinish] else []) @
          map (\<lambda>(k, p). EraseCompute k) (filter (\<lambda>(k, p). ck_shader k = A) rest)\<rparr>)"
  using assms
proof (induction rest arbitrary: fin s kept)
  case Nil
  then show ?case by simp
next
  case (Cons x rest)
  obtain k p where x: "x = (k, p)" by (cases x)
  show ?case
  proof (cases "ck_shader k = A")
    case False
    have "compute_cache s = (kept @ [x]) @ rest" using Cons.prems(1) by simp
    moreover have "\<forall>(k, p) \<in> set (kept @ [x]). ck_shader k \<noteq> A"
      using Cons.prems(2) False x by auto
    ultimately have "Unregister_compute_loop A rest (fin, s) =
     (fin \<or> filter (\<lambda>(k, p). ck_shader k = A) rest \<noteq> [],
      s\<lparr>compute_cache := (kept @ [x]) @ filter (\<lambda>(k, p). ck_shader k \<noteq> A) rest,
        compute_objects :=
          filter (\<lambda>(a, _). a \<notin> snd ` set (filter (\<lambda>(k, p). ck_shader k = A) rest))
            (compute_objects s),
        events := events s @
          (if \<not> fin \<and> filter (\<lambda>(k, p). ck_shader k = A) rest \<noteq> []
           then [SchedulerFinish] else []) @
          map (\<lambda>(k, p). EraseCompute k) (filter (\<lambda>(k, p). ck_shader k = A) rest)\<rparr>)"
      by (rule Cons.IH)
    then show ?thesis using False x by simp
  next
    case True
    have notin: "x \<notin> set kept" using Cons.prems(2) True x by auto
    obtain s1 where f: "Finish (fin, s) = (True, s1)"
      and s1: "s1 = (if fin then s else s\<lparr>events := events s @ [SchedulerFinish]\<rparr>)"
      by (simp add: Finish_def)
    define s2 where "s2 = s1\<lparr>compute_cache := remove1 (k, p) (compute_cache s1),
                compute_objects := filter (\<lambda>(a, _). a \<noteq> p) (compute_objects s1),
                events := events s1 @ [EraseCompute k]\<rparr>"
    have cc: "compute_cache s2 = kept @ rest"
      using Cons.prems(1) notin x by (simp add: s2_def s1 remove1_after_kept)
    have step: "Unregister_compute_loop A (x # rest) (fin, s) =
                Unregister_compute_loop A rest (True, s2)"
      using True x f by (simp add: s2_def)
    have "Unregister_compute_loop A rest (True, s2) =
     (True \<or> filter (\<lambda>(k, p). ck_shader k = A) rest \<noteq> [],
      s2\<lparr>compute_cache := kept @ filter (\<lambda>(k, p). ck_shader k \<noteq> A) rest,
        compute_objects :=
          filter (\<lambda>(a, _). a \<notin> snd ` set (filter (\<lambda>(k, p). ck_shader k = A) rest))
            (compute_objects s2),
        events := events s2 @
          (if \<not> True \<and> filter (\<lambda>(k, p). ck_shader k = A) rest \<noteq> []
           then [SchedulerFinish] else []) @
          map (\<lambda>(k, p). EraseCompute k) (filter (\<lambda>(k, p). ck_shader k = A) rest)\<rparr>)"
      using cc Cons.prems(2) by (rule Cons.IH)
    moreover have "filter (\<lambda>(a, _). a \<notin> snd ` set (filter (\<lambda>(k, p). ck_shader k = A) rest))
            (filter (\<lambda>(a, _). a \<noteq> p) (compute_objects s)) =
          filter (\<lambda>(a, _). a \<notin> snd ` set (filter (\<lambda>(k, p). ck_shader k = A) (x # rest)))
            (compute_objects s)"
      using True x by (auto intro: filter_cong)
    ultimately show ?thesis
      using True x step by (simp add: s2_def s1)
  qed
qed

lemma Unregister_eq:
  fixes s :: VKPipelineCache and r :: nat
  defines "A \<equiv> sh_gpu_addr (shader_objects s ! r)"
  defines "removed_g \<equiv> filter (\<lambda>(k, p). A \<in> set (gk_shaders k)) (graphics_cache s)"
  defines "removed_c \<equiv> filter (\<lambda>(k, p). ck_shader k = A) (compute_cache s)"
  shows "Unregister (Some r) s =
     Inr (s\<lparr>graphics_cache := filter (\<lambda>(k, p). A \<notin> set (gk_shaders k)) (graphics_cache s),
           graphics_objects := filter (\<lambda>(a, _). a \<notin> snd ` set removed_g) (graphics_objects s),
           compute_cache := filter (\<lambda>(k, p). ck_shader k \<noteq> A) (compute_cache s),
           compute_objects := filter (\<lambda>(a, _). a \<notin> snd ` set removed_c) (compute_objects s),
           events := events s @
             (if removed_g = [] \<and> removed_c = [] then [] else [SchedulerFinish]) @
             map (\<lambda>(k, p). EraseGraphics k) removed_g @
             map (\<lambda>(k, p). EraseCompute k) removed_c,
           map_cache := filter (\<lambda>(host_ptr, _). host_ptr \<noteq> sh_host_ptr (shader_objects s ! r))
                          (map_cache s)\<rparr>)"
proof -
  have g: "Unregister_graphics_loop A (graphics_cache s) (False, s) =
     (removed_g \<noteq> [],
      s\<lparr>graphics_cache := filter (\<lambda>(k, p). A \<notin> set (gk_shaders k)) (graphics_cache s),
        graphics_objects := filter (\<lambda>(a, _). a \<notin> snd ` set removed_g) (graphics_objects s),
        events := events s @ (if removed_g \<noteq> [] then [SchedulerFinish] else []) @
          map (\<lambda>(k, p). EraseGraphics k) removed_g\<rparr>)"
    using Unregister_graphics_loop_eq [of s "[]" "graphics_cache s" A False]
    by (simp add: removed_g_def)
  define s1 where "s1 = s\<lparr>graphics_cache := filter (\<lambda>(k, p). A \<notin> set (gk_shaders k)) (graphics_cache s),
        graphics_objects := filter (\<lambda>(a, _). a \<notin> snd ` set removed_g) (graphics_objects s),
        events := events s @ (if removed_g \<noteq> [] then [SchedulerFinish] else []) @
          map (\<lambda>(k, p). EraseGraphics k) removed_g\<rparr>"
  have c: "Unregister_compute_loop A (compute_cache s1) (removed_g \<noteq> [], s1) =
     (removed_g \<noteq> [] \<or> removed_c \<noteq> [],
      s1\<lparr>compute_cache := filter (\<lambda>(k, p). ck_shader k \<noteq> A) (compute_cache s),
        compute_objects := filter (\<lambda>(a, _). a \<notin> snd ` set removed_c) (compute_objects s),
        events := events s1 @ (if \<not> removed_g \<noteq> [] \<and> removed_c \<noteq> [] then [SchedulerFinish] else []) @
          map (\<lambda>(k, p). EraseCompute k) removed_c\<rparr>)"
    using Unregister_compute_loop_eq [of s1 "[]" "compute_cache s1" A "removed_g \<noteq> []"]
    by (simp add: removed_c_def s1_def)
  show ?thesis
    unfolding Unregister_def option.case Let_def A_def [symmetric] g s1_def [symmetric]
      prod.case c
    by (auto simp: s1_def RasterizerCache_Unregister_def)
qed

lemma map_of_filter_other:
  "p \<notin> R \<Longrightarrow> map_of (filter (\<lambda>(a, _). a \<notin> R) xs) p = map_of xs p"
  by (induction xs) auto

lemma count_finish_erase_graphics:
  "count_list (map (\<lambda>(k, p). EraseGraphics k) g) SchedulerFinish = 0"
  by (induction g) auto

lemma count_finish_erase_compute:
  "count_list (map (\<lambda>(k, p). EraseCompute k) h) SchedulerFinish = 0"
  by (induction h) auto

lemma finish_first_count:
  "count_list ((if c then [] else [SchedulerFinish]) @
      map (\<lambda>(k, p). EraseGraphics k) g @ map (\<lambda>(k, p). EraseCompute k) h) SchedulerFinish \<le> 1"
  by (simp add: count_finish_erase_graphics count_finish_erase_compute)

lemma finish_first_precedes:
  assumes "new = (if g = [] \<and> h = [] then [] else [SchedulerFinish]) @
      map (\<lambda>(k, p). EraseGraphics k) g @ map (\<lambda>(k, p). EraseCompute k) h"
    and "i < length new" and "is_erase (new ! i)"
  shows "SchedulerFinish \<in> set (take i new)"
proof (cases "g = [] \<and> h = []")
  case True
  with assms show ?thesis by simp
next
  case False
  then have new: "new = SchedulerFinish # (map (\<lambda>(k, p). EraseGraphics k) g @ map (\<lambda>(k, p). EraseCompute k) h)"
    using assms(1) by simp
  have "i \<noteq> 0"
  proof
    assume "i = 0"
    then have "new ! i = SchedulerFinish" using new by simp
    then show False using assms(3) by (simp add: is_erase_def)
  qed
  then obtain j where "i = Suc j" by (cases i) auto
  then show ?thesis using new by simp
qed

text \<open>
  Claim C3. One call of \<open>Unregister\<close> for a shader at GPU address \<open>A\<close> removes from the
  graphics cache exactly the entries whose key has \<open>A\<close> in a stage slot and from the
  compute cache exactly the entries whose key's shader is \<open>A\<close>; the other entries and
  their pipelines stay as they are; the removed pipelines are destroyed. The events of
  the call are: nothing when no entry is removed, otherwise one \<open>SchedulerFinish\<close> followed
  by the removals. So the wait happens at most once, and before every removal.
\<close>

theorem Unregister_purges_after_one_finish:
  "case Unregister (Some r) s of
     Inl e \<Rightarrow> False
   | Inr s' \<Rightarrow>
      (let A = sh_gpu_addr (shader_objects s ! r);
           removed_g = filter (\<lambda>(k, p). A \<in> set (gk_shaders k)) (graphics_cache s);
           removed_c = filter (\<lambda>(k, p). ck_shader k = A) (compute_cache s);
           new = drop (length (events s)) (events s')
       in graphics_cache s' = filter (\<lambda>(k, p). A \<notin> set (gk_shaders k)) (graphics_cache s) \<and>
          compute_cache s' = filter (\<lambda>(k, p). ck_shader k \<noteq> A) (compute_cache s) \<and>
          (\<forall>a. a \<notin> snd ` set removed_g \<longrightarrow>
                map_of (graphics_objects s') a = map_of (graphics_objects s) a) \<and>
          (\<forall>a. a \<notin> snd ` set removed_c \<longrightarrow>
                map_of (compute_objects s') a = map_of (compute_objects s) a) \<and>
          (\<forall>a \<in> snd ` set removed_g. map_of (graphics_objects s') a = None) \<and>
          (\<forall>a \<in> snd ` set removed_c. map_of (compute_objects s') a = None) \<and>
          take (length (events s)) (events s') = events s \<and>
          new = (if removed_g = [] \<and> removed_c = [] then [] else [SchedulerFinish]) @
                map (\<lambda>(k, p). EraseGraphics k) removed_g @
                map (\<lambda>(k, p). EraseCompute k) removed_c \<and>
          count_list new SchedulerFinish \<le> 1 \<and>
          (\<forall>i<length new. is_erase (new ! i) \<longrightarrow> SchedulerFinish \<in> set (take i new)))"
proof -
  define A where "A = sh_gpu_addr (shader_objects s ! r)"
  define removed_g where "removed_g = filter (\<lambda>(k, p). A \<in> set (gk_shaders k)) (graphics_cache s)"
  define removed_c where "removed_c = filter (\<lambda>(k, p). ck_shader k = A) (compute_cache s)"
  define new where "new = (if removed_g = [] \<and> removed_c = [] then [] else [SchedulerFinish]) @
                map (\<lambda>(k, p). EraseGraphics k) removed_g @
                map (\<lambda>(k, p). EraseCompute k) removed_c"
  have cnt: "count_list new SchedulerFinish \<le> 1"
    unfolding new_def by (rule finish_first_count)
  have prec: "\<forall>i<length new. is_erase (new ! i) \<longrightarrow> SchedulerFinish \<in> set (take i new)"
    using finish_first_precedes [OF new_def] by blast
  have gone_g: "\<forall>a \<in> snd ` set removed_g.
      map_of (filter (\<lambda>(a, _). a \<notin> snd ` set removed_g) (graphics_objects s)) a = None"
    by (force simp: map_of_eq_None_iff)
  have gone_c: "\<forall>a \<in> snd ` set removed_c.
      map_of (filter (\<lambda>(a, _). a \<notin> snd ` set removed_c) (compute_objects s)) a = None"
    by (force simp: map_of_eq_None_iff)
  show ?thesis
    unfolding Unregister_eq sum.case Let_def
    unfolding A_def [symmetric] removed_g_def [symmetric] removed_c_def [symmetric]
    using cnt prec gone_g gone_c
    by (simp add: new_def [symmetric] map_of_filter_other)
qed

text \<open>
  The witness is the specification's example: three graphics entries and one compute
  entry go, after one wait; the entries of the other shader stay.
\<close>

theorem Unregister_purges_after_one_finish_witness:
  "case Unregister (Some 0) purge_example of
     Inl e \<Rightarrow> False
   | Inr s' \<Rightarrow>
       graphics_cache s' = [(example_graphics_key 0x200 0x300 0, 1)] \<and>
       compute_cache s' = [(example_compute_key 0x200 0, 5)] \<and>
       events s' =
         [SchedulerFinish,
          EraseGraphics (example_graphics_key 0x100 0x300 0),
          EraseGraphics (example_graphics_key 0x200 0x100 0),
          EraseGraphics (example_graphics_key 0x100 0x100 1),
          EraseCompute (example_compute_key 0x100 0)] \<and>
       map_of (graphics_objects s') 1 =
         Some (example_graphics_pipeline (example_graphics_key 0x200 0x300 0)) \<and>
       map_of (graphics_objects s') 0 = None \<and>
       count_list (events s') SchedulerFinish = 1"
proof -
  note t = Unregister_purges_after_one_finish [where r = 0 and s = purge_example]
  obtain s' where u: "Unregister (Some 0) purge_example = Inr s'"
    using t by (cases "Unregister (Some 0) purge_example") auto
  have A: "sh_gpu_addr (shader_objects purge_example ! 0) = 0x100"
    by (simp add: purge_example_def new_CachedShader_def Let_def)
  have g: "graphics_cache purge_example =
        [(example_graphics_key 0x100 0x300 0, 0), (example_graphics_key 0x200 0x300 0, 1),
         (example_graphics_key 0x200 0x100 0, 2), (example_graphics_key 0x100 0x100 1, 3)]"
    and c: "compute_cache purge_example =
        [(example_compute_key 0x100 0, 4), (example_compute_key 0x200 0, 5)]"
    and e: "events purge_example = []"
    and go: "graphics_objects purge_example =
        [(0, example_graphics_pipeline (example_graphics_key 0x100 0x300 0)),
         (1, example_graphics_pipeline (example_graphics_key 0x200 0x300 0)),
         (2, example_graphics_pipeline (example_graphics_key 0x200 0x100 0)),
         (3, example_graphics_pipeline (example_graphics_key 0x100 0x100 1))]"
    by (simp_all add: purge_example_def)
  have k: "gk_shaders (example_graphics_key v f n) = [0, v, 0, 0, 0, f]" for v f n
    by (simp add: example_graphics_key_def)
  have ck: "ck_shader (example_compute_key a n) = a" for a n
    by (simp add: example_compute_key_def)
  from t have f: "graphics_cache s' = [(example_graphics_key 0x200 0x300 0, 1)]"
      "compute_cache s' = [(example_compute_key 0x200 0, 5)]"
      "events s' =
         [SchedulerFinish,
          EraseGraphics (example_graphics_key 0x100 0x300 0),
          EraseGraphics (example_graphics_key 0x200 0x100 0),
          EraseGraphics (example_graphics_key 0x100 0x100 1),
          EraseCompute (example_compute_key 0x100 0)]"
      "map_of (graphics_objects s') 1 = map_of (graphics_objects purge_example) 1"
      "map_of (graphics_objects s') 0 = None"
    unfolding u sum.case Let_def A g c e
    by (simp_all add: k ck)
  show ?thesis
    unfolding u sum.case using f by (simp add: go)
qed

subsection \<open>The memo slot of GetGraphicsPipeline\<close>

lemma GetGraphicsPipeline_memo:
  "last_graphics_pipeline s = Some p \<Longrightarrow> last_graphics_key s = key \<Longrightarrow>
   GetGraphicsPipeline system ext key s = Inr (p, s)"
  by (simp add: GetGraphicsPipeline_def)

lemma GetGraphicsPipeline_lookup_sets_memo:
  "GetGraphicsPipeline_lookup system ext key s = Inr (p, s1) \<Longrightarrow>
   last_graphics_pipeline s1 = Some p \<and> last_graphics_key s1 = key"
  by (auto simp: GetGraphicsPipeline_lookup_def Let_def
           split: option.splits sum.splits prod.splits)

lemma GetGraphicsPipeline_sets_memo:
  "GetGraphicsPipeline system ext key s = Inr (p, s1) \<Longrightarrow>
   last_graphics_pipeline s1 = Some p \<and> last_graphics_key s1 = key"
  by (auto simp: GetGraphicsPipeline_def dest: GetGraphicsPipeline_lookup_sets_memo
           split: option.splits if_splits)

text \<open>
  Claim C1 fails on the code. \<open>Unregister\<close> erases the map entries and destroys their
  pipelines, but assigns neither \<open>last_graphics_pipeline\<close> nor \<open>last_graphics_key\<close>.
  When the memo slot points at an entry that \<open>Unregister\<close> removes, the next
  \<open>GetGraphicsPipeline\<close> with the memoized key takes the fast path: it returns the
  address of the destroyed pipeline, does no lookup and compiles nothing (the state is
  unchanged).
\<close>

theorem stale_memo_after_Unregister:
  assumes "last_graphics_pipeline s = Some p"
    and "last_graphics_key s = key"
    and "(key, p) \<in> set (graphics_cache s)"
    and "sh_gpu_addr (shader_objects s ! r) \<in> set (gk_shaders key)"
  shows "case Unregister (Some r) s of
           Inl e \<Rightarrow> False
         | Inr s' \<Rightarrow>
             map_of (graphics_cache s') key = None \<and>
             map_of (graphics_objects s') p = None \<and>
             GetGraphicsPipeline system ext key s' = Inr (p, s')"
proof -
  let ?A = "sh_gpu_addr (shader_objects s ! r)"
  have gone: "map_of (filter (\<lambda>(k, p). ?A \<notin> set (gk_shaders k)) (graphics_cache s)) key = None"
    using assms(4) by (auto simp: map_of_eq_None_iff)
  have "(key, p) \<in> set (filter (\<lambda>(k, p). ?A \<in> set (gk_shaders k)) (graphics_cache s))"
    using assms(3,4) by simp
  then have "p \<in> snd ` set (filter (\<lambda>(k, p). ?A \<in> set (gk_shaders k)) (graphics_cache s))"
    by force
  then have dead: "map_of (filter (\<lambda>(a, _). a \<notin> snd ` set (filter (\<lambda>(k, p). ?A \<in> set (gk_shaders k)) (graphics_cache s))) (graphics_objects s)) p = None"
    by (simp add: map_of_eq_None_iff image_iff)
  show ?thesis
    unfolding Unregister_eq sum.case
    using gone dead assms(1,2) by (simp add: GetGraphicsPipeline_memo)
qed

lemma graphics_block_size: "CalculateProgramSize [1, 1, 0, 1, 1, 1, 1, 1] False = 8"
  by (simp add: CalculateProgramSize_def CalculateProgramSize_loop.simps)

lemma example_fetch:
  "GetShaderCode 8 example_memory a (a + 0x1000) False = [1, 1, 0, 1, 1, 1, 1, 1]"
    if "a + 0x1000 \<noteq> 0" for a :: u64
  using that
  by (simp add: GetShaderCode_def Let_def nullptr_def upt8 example_memory_def
        graphics_block_size resize_def)

lemma replicate6: "replicate 6 x = [x, x, x, x, x, x]"
  by (simp add: numeral_eq_Suc)

lemma replicate5: "replicate 5 x = [x, x, x, x, x]"
  by (simp add: numeral_eq_Suc)

lemma new_CachedShader_fields [simp]:
  "sh_host_ptr (new_CachedShader ext stage gpu_addr cpu_addr host_ptr code main_offset) = host_ptr"
  "sh_gpu_addr (new_CachedShader ext stage gpu_addr cpu_addr host_ptr code main_offset) = gpu_addr"
  "sh_entries (new_CachedShader ext stage gpu_addr cpu_addr host_ptr code main_offset) =
     ext_GenerateShaderEntries ext
       \<lparr>ir_program_code = code, ir_main_offset = main_offset,
        ir_registry = \<lparr>reg_stage = stage, reg_engine = GetEngine stage\<rparr>\<rparr>"
  by (simp_all add: new_CachedShader_def Let_def)

lemma example_GetShaders:
  "GetShaders example_system example_ext initial_cache =
     Inr ([None, Some 0, None, None, None, Some 1], cache_with_shaders)"
  by (simp add: GetShaders_def GetShaders_loop.simps MaxShaderProgram_def example_system_def
        example_ext_def Let_def program_of_index_def GetShaderAddress_def TryGet_def
        initial_cache_def example_memory_def
         stage_of_index_def make_shared_def Register_def
        cache_with_shaders_def example_shaders_def stage_offset_def
         GetShaderCode_def nullptr_def upt8 graphics_block_size resize_def replicate6)

lemma FillDescriptorLayout_one_const_buffer:
  "FillDescriptorLayout one_const_buffer bindings program_type b =
     (bindings @ [\<lparr>lb_binding = b, lb_descriptorType = eUniformBuffer, lb_descriptorCount = 1,
                   lb_stageFlags = ShaderStage (GetStageFromProgram program_type)\<rparr>], b + 1)"
proof -
  have "sizes_fit_u32 one_const_buffer"
    by (simp add: sizes_fit_u32_def one_const_buffer_def)
  then show ?thesis
    by (simp add: FillDescriptorLayout_eq one_const_buffer_def layout_segment_def)
qed

lemma NumBindings_one_const_buffer: "NumBindings one_const_buffer = 1"
  by (simp add: NumBindings_def one_const_buffer_def)

lemma example_DecompileShaders:
  "DecompileShaders example_system example_ext
     (cache_with_shaders\<lparr>last_graphics_key := k, events := e\<rparr>)
     (example_graphics_key 0x100 0x300 0) =
   Inr (gp_program example_pipeline, gp_bindings example_pipeline, [])"
  by (simp add: DecompileShaders_def DecompileShaders_loop.simps MaxShaderProgram_def
        MaxShaderStage_def replicate5 Let_def example_graphics_key_def example_fixed_state_def
        default_Specialization_def example_system_def program_of_index_def
        GetShaderAddress_def example_memory_def TryGet_def cache_with_shaders_def
        initial_cache_def example_shaders_def FillDescriptorLayout_one_const_buffer
        NumBindings_one_const_buffer GetStageFromProgram_def GetStageFromProgram_index_def
        stage_of_index_def example_pipeline_def new_CachedShader_def example_ext_def)

lemma example_GetGraphicsPipeline:
  "GetGraphicsPipeline example_system example_ext (example_graphics_key 0x100 0x300 0)
     cache_with_shaders = Inr (0, cache_with_pipeline)"
proof -
  have m: "last_graphics_pipeline cache_with_shaders = None"
    "graphics_cache cache_with_shaders = []"
    "next_address cache_with_shaders = 0"
    "events cache_with_shaders = []"
    "graphics_objects cache_with_shaders = []"
    by (simp_all add: cache_with_shaders_def initial_cache_def)
  have p: "example_pipeline =
     \<lparr>gp_key = example_graphics_key 0x100 0x300 0,
      gp_bindings = gp_bindings example_pipeline, gp_program = gp_program example_pipeline\<rparr>"
    by (simp add: example_pipeline_def)
  show ?thesis
    unfolding GetGraphicsPipeline_def m option.case GetGraphicsPipeline_lookup_def Let_def
    by (simp add: m example_DecompileShaders cache_with_pipeline_def p [symmetric])
qed

text \<open>
  The run from the initial cache: \<open>GetShaders\<close>, \<open>GetGraphicsPipeline\<close> (a miss, pipeline
  0 is compiled and memoized), \<open>Unregister\<close> of the vertex shader, and
  \<open>GetGraphicsPipeline\<close> with the same key again.
\<close>

theorem stale_memo_after_Unregister_witness:
  "GetShaders example_system example_ext initial_cache =
     Inr ([None, Some 0, None, None, None, Some 1], cache_with_shaders) \<and>
   GetGraphicsPipeline example_system example_ext (example_graphics_key 0x100 0x300 0)
     cache_with_shaders = Inr (0, cache_with_pipeline) \<and>
   map_of (graphics_objects cache_with_pipeline) 0 = Some example_pipeline \<and>
   (case Unregister (Some 0) cache_with_pipeline of
      Inl e \<Rightarrow> False
    | Inr s' \<Rightarrow>
        map_of (graphics_cache s') (example_graphics_key 0x100 0x300 0) = None \<and>
        map_of (graphics_objects s') 0 = None \<and>
        GetGraphicsPipeline example_system example_ext (example_graphics_key 0x100 0x300 0) s'
          = Inr (0, s'))"
proof -
  have a: "last_graphics_pipeline cache_with_pipeline = Some 0"
    and b: "last_graphics_key cache_with_pipeline = example_graphics_key 0x100 0x300 0"
    and c: "(example_graphics_key 0x100 0x300 0, 0) \<in> set (graphics_cache cache_with_pipeline)"
    and d: "sh_gpu_addr (shader_objects cache_with_pipeline ! 0)
              \<in> set (gk_shaders (example_graphics_key 0x100 0x300 0))"
    and o: "map_of (graphics_objects cache_with_pipeline) 0 = Some example_pipeline"
    by (simp_all add: cache_with_pipeline_def cache_with_shaders_def example_shaders_def
          example_graphics_key_def)
  show ?thesis
    using stale_memo_after_Unregister [OF a b c d, of example_system example_ext]
      example_GetShaders example_GetGraphicsPipeline o
    by simp
qed

subsection \<open>Two calls of GetGraphicsPipeline with equal keys\<close>

lemma DecompileShaders_loop_no_compile:
  "DecompileShaders_loop system ext s index (specialization, program, bindings, evs)
     = Inr (program', bindings', evs') \<Longrightarrow>
   filter is_compile_graphics evs' = filter is_compile_graphics evs"
proof (induction system ext s index "(specialization, program, bindings, evs)"
       arbitrary: specialization program bindings evs
       rule: DecompileShaders_loop.induct)
  case (1 system ext s index specialization program bindings evs)
  show ?case
  proof (cases "index < MaxShaderProgram")
    case False
    with "1.prems" show ?thesis
      by (subst (asm) DecompileShaders_loop.simps) simp
  next
    case True
    note lt = True
    show ?thesis
    proof (cases "sys_IsShaderConfigEnabled system index")
      case False
      with lt "1.prems" have
        "DecompileShaders_loop system ext s (index + 1) (specialization, program, bindings, evs)
           = Inr (program', bindings', evs')"
        by (subst (asm) DecompileShaders_loop.simps) (simp add: Let_def)
      with "1.hyps"(1) [OF lt refl] False show ?thesis by simp
    next
      case True
      from "1.prems" lt True show ?thesis
        apply (subst (asm) DecompileShaders_loop.simps)
        apply (simp add: Let_def split: option.splits prod.splits if_splits)
        using "1.hyps"(2) [OF lt refl _ refl refl] True
        apply (auto simp: is_compile_graphics_def Let_def split: prod.splits if_splits)
        done
    qed
  qed
qed

lemma DecompileShaders_no_compile:
  "DecompileShaders system ext s key = Inr (program, bindings, evs) \<Longrightarrow>
   filter is_compile_graphics evs = []"
  by (auto simp: DecompileShaders_def Let_def is_compile_graphics_def
           split: if_splits dest!: DecompileShaders_loop_no_compile)

lemma map_of_append_new:
  "map_of xs k = None \<Longrightarrow> map_of (xs @ [(k, v)]) k' = (if k' = k then Some v else map_of xs k')"
  by (induction xs) auto

lemma GetGraphicsPipeline_lookup_hit:
  "map_of (graphics_cache s) key = Some q \<Longrightarrow>
   GetGraphicsPipeline_lookup system ext key s =
     Inr (q, s\<lparr>last_graphics_key := key, last_graphics_pipeline := Some q\<rparr>)"
  by (simp add: GetGraphicsPipeline_lookup_def Let_def)

lemma GetGraphicsPipeline_lookup_miss:
  assumes "map_of (graphics_cache s) key = None"
    and "GetGraphicsPipeline_lookup system ext key s = Inr (p, s1)"
  shows "\<exists>evs pipeline.
     filter is_compile_graphics evs = [] \<and> p = next_address s \<and>
     s1 = s\<lparr>last_graphics_key := key,
            events := events s @ LogCompileGraphics key # evs,
            next_address := next_address s + 1,
            graphics_objects := graphics_objects s @ [(p, pipeline)],
            graphics_cache := graphics_cache s @ [(key, p)],
            last_graphics_pipeline := Some p\<rparr>"
  using assms
  by (auto simp: GetGraphicsPipeline_lookup_def Let_def
           split: sum.splits prod.splits dest: DecompileShaders_no_compile)

text \<open>What one call does to the state, in the three cases.\<close>

lemma GetGraphicsPipeline_cases:
  assumes "GetGraphicsPipeline system ext key s = Inr (p, s1)"
  obtains (memo) "last_graphics_pipeline s = Some p" "last_graphics_key s = key" "s1 = s"
  | (hit) "map_of (graphics_cache s) key = Some p"
      "s1 = s\<lparr>last_graphics_key := key, last_graphics_pipeline := Some p\<rparr>"
  | (miss) evs pipeline where "map_of (graphics_cache s) key = None"
      "filter is_compile_graphics evs = []" "p = next_address s"
      "s1 = s\<lparr>last_graphics_key := key,
            events := events s @ LogCompileGraphics key # evs,
            next_address := next_address s + 1,
            graphics_objects := graphics_objects s @ [(p, pipeline)],
            graphics_cache := graphics_cache s @ [(key, p)],
            last_graphics_pipeline := Some p\<rparr>"
proof (cases "\<exists>q. last_graphics_pipeline s = Some q \<and> last_graphics_key s = key")
  case True
  with assms have "last_graphics_pipeline s = Some p" "last_graphics_key s = key" "s1 = s"
    by (auto simp: GetGraphicsPipeline_def)
  then show ?thesis by (rule memo)
next
  case False
  then have l: "GetGraphicsPipeline_lookup system ext key s = Inr (p, s1)"
    using assms by (auto simp: GetGraphicsPipeline_def split: option.splits if_splits)
  show ?thesis
  proof (cases "map_of (graphics_cache s) key")
    case None
    from GetGraphicsPipeline_lookup_miss [OF None l] obtain evs pipeline where
      "filter is_compile_graphics evs = []" "p = next_address s"
      "s1 = s\<lparr>last_graphics_key := key,
            events := events s @ LogCompileGraphics key # evs,
            next_address := next_address s + 1,
            graphics_objects := graphics_objects s @ [(p, pipeline)],
            graphics_cache := graphics_cache s @ [(key, p)],
            last_graphics_pipeline := Some p\<rparr>"
      by blast
    with None show ?thesis by (rule miss)
  next
    case (Some q)
    with l have "p = q" "s1 = s\<lparr>last_graphics_key := key, last_graphics_pipeline := Some p\<rparr>"
      by (auto simp: GetGraphicsPipeline_lookup_hit)
    with Some show ?thesis by (auto intro: hit)
  qed
qed

lemma no_compile_count:
  "filter is_compile_graphics evs = [] \<Longrightarrow> count_list evs (LogCompileGraphics k) = 0"
  by (induction evs) (auto simp: is_compile_graphics_def split: if_splits)

lemma GetGraphicsPipeline_step:
  assumes "GetGraphicsPipeline system ext key s = Inr (p, s1)"
  shows "(\<exists>new. events s1 = events s @ new \<and>
           length (filter is_compile_graphics new) \<le> 1 \<and>
           (\<forall>k. map_of (graphics_cache s) k \<noteq> None \<longrightarrow>
                count_list new (LogCompileGraphics k) = 0)) \<and>
    (\<forall>k q. map_of (graphics_cache s) k = Some q \<longrightarrow> map_of (graphics_cache s1) k = Some q) \<and>
    (memo_coherent s \<longrightarrow> memo_coherent s1 \<and> map_of (graphics_cache s1) key = Some p) \<and>
    last_graphics_pipeline s1 = Some p \<and> last_graphics_key s1 = key"
  using assms
proof (cases rule: GetGraphicsPipeline_cases)
  case memo
  then show ?thesis
    by (auto simp: memo_coherent_def)
next
  case hit
  then show ?thesis
    by (auto simp: memo_coherent_def)
next
  case (miss evs pipeline)
  have ev: "events s1 = events s @ (LogCompileGraphics key # evs)"
    using miss(4) by simp
  have one: "length (filter is_compile_graphics (LogCompileGraphics key # evs)) \<le> 1"
    using miss(2) by (simp add: is_compile_graphics_def)
  have others: "\<forall>k. map_of (graphics_cache s) k \<noteq> None \<longrightarrow>
                count_list (LogCompileGraphics key # evs) (LogCompileGraphics k) = 0"
    using miss(1,2) by (auto simp: no_compile_count)
  have keep: "\<forall>k q. map_of (graphics_cache s) k = Some q \<longrightarrow> map_of (graphics_cache s1) k = Some q"
    using miss(1,4) by (auto simp: map_of_append_new)
  have here: "map_of (graphics_cache s1) key = Some p"
    using miss(1,4) by (simp add: map_add_def)
  have memo: "last_graphics_pipeline s1 = Some p \<and> last_graphics_key s1 = key"
    using miss(4) by simp
  show ?thesis
    using ev one others keep here memo
    by (auto simp: memo_coherent_def)
qed

lemma GetGraphicsPipelines_keeps:
  assumes "GetGraphicsPipelines system ext keys s = Inr s2" and "memo_coherent s"
    and "map_of (graphics_cache s) k = Some q"
  shows "memo_coherent s2 \<and> map_of (graphics_cache s2) k = Some q \<and>
         (\<exists>new. events s2 = events s @ new \<and> count_list new (LogCompileGraphics k) = 0)"
  using assms
proof (induction keys arbitrary: s)
  case Nil
  then show ?case by simp
next
  case (Cons key keys)
  from Cons.prems(1) obtain p s1 where
    first: "GetGraphicsPipeline system ext key s = Inr (p, s1)"
    and rest: "GetGraphicsPipelines system ext keys s1 = Inr s2"
    by (auto split: sum.splits)
  note step = GetGraphicsPipeline_step [OF first]
  from step obtain new1 where
    n1: "events s1 = events s @ new1"
    and c1: "\<forall>k. map_of (graphics_cache s) k \<noteq> None \<longrightarrow> count_list new1 (LogCompileGraphics k) = 0"
    by blast
  have coh1: "memo_coherent s1"
    using step Cons.prems(2) by simp
  have k1: "map_of (graphics_cache s1) k = Some q"
    using step Cons.prems(3) by simp
  from Cons.IH [OF rest coh1 k1] obtain new2 where
    coh2: "memo_coherent s2" and k2: "map_of (graphics_cache s2) k = Some q"
    and n2: "events s2 = events s1 @ new2" and c2: "count_list new2 (LogCompileGraphics k) = 0"
    by blast
  have "events s2 = events s @ (new1 @ new2)" using n1 n2 by simp
  moreover have "count_list (new1 @ new2) (LogCompileGraphics k) = 0"
    using c1 c2 Cons.prems(3) by simp
  ultimately show ?case using coh2 k2 by blast
qed

text \<open>
  What holds of two calls with equal keys. After a call of \<open>GetGraphicsPipeline\<close> has
  returned a pipeline for a key, a call with an equal key right after it returns the same
  pipeline from the memo slot and leaves the state as it is, whatever the map and the live
  pipelines are (the map is not consulted); the first call compiles at most once. When
  calls for other keys come between the two and the memo slot agreed with the map at the
  start, the pipeline is found in the map again and the key is compiled at most once over
  all the calls.
\<close>

lemma GetGraphicsPipeline_equal_keys_coherent:
  "GetGraphicsPipeline system ext k1 s = Inr (p, s1) \<and> k2 = k1 \<longrightarrow>
     GetGraphicsPipeline system' ext' k2 s1 = Inr (p, s1) \<and>
     (\<forall>gc go. GetGraphicsPipeline system' ext' k2
                 (s1\<lparr>graphics_cache := gc, graphics_objects := go\<rparr>) =
               Inr (p, s1\<lparr>graphics_cache := gc, graphics_objects := go\<rparr>)) \<and>
     take (length (events s)) (events s1) = events s \<and>
     length (filter is_compile_graphics (drop (length (events s)) (events s1))) \<le> 1 \<and>
     (memo_coherent s \<and> GetGraphicsPipelines system ext keys s1 = Inr s2 \<longrightarrow>
        (\<exists>s3. GetGraphicsPipeline system' ext' k2 s2 = Inr (p, s3) \<and>
              graphics_cache s3 = graphics_cache s2 \<and>
              graphics_objects s3 = graphics_objects s2 \<and>
              events s3 = events s2 \<and>
              take (length (events s)) (events s3) = events s \<and>
              count_list (drop (length (events s)) (events s3)) (LogCompileGraphics k1) \<le> 1))"
proof (intro impI, elim conjE)
  assume first: "GetGraphicsPipeline system ext k1 s = Inr (p, s1)" and eq: "k2 = k1"
  note step = GetGraphicsPipeline_step [OF first]
  from step obtain new1 where
    n1: "events s1 = events s @ new1"
    and c1: "length (filter is_compile_graphics new1) \<le> 1"
    by blast
  have memo1: "last_graphics_pipeline s1 = Some p" "last_graphics_key s1 = k1"
    using step by simp_all
  have again: "GetGraphicsPipeline system' ext' k2 s1 = Inr (p, s1)"
    using memo1 eq by (simp add: GetGraphicsPipeline_memo)
  have pinned: "\<forall>gc go. GetGraphicsPipeline system' ext' k2
                 (s1\<lparr>graphics_cache := gc, graphics_objects := go\<rparr>) =
               Inr (p, s1\<lparr>graphics_cache := gc, graphics_objects := go\<rparr>)"
    using memo1 eq by (simp add: GetGraphicsPipeline_memo)
  have count1: "count_list new1 (LogCompileGraphics k1) \<le> 1"
  proof -
    have "count_list xs (LogCompileGraphics k1) \<le> length (filter is_compile_graphics xs)" for xs
      by (induction xs) (auto simp: is_compile_graphics_def)
    with c1 show ?thesis using le_trans by blast
  qed
  have later: "\<exists>s3. GetGraphicsPipeline system' ext' k2 s2 = Inr (p, s3) \<and>
              graphics_cache s3 = graphics_cache s2 \<and>
              graphics_objects s3 = graphics_objects s2 \<and>
              events s3 = events s2 \<and>
              take (length (events s)) (events s3) = events s \<and>
              count_list (drop (length (events s)) (events s3)) (LogCompileGraphics k1) \<le> 1"
    if coh: "memo_coherent s" and run: "GetGraphicsPipelines system ext keys s1 = Inr s2"
  proof -
    have coh1: "memo_coherent s1" and in1: "map_of (graphics_cache s1) k1 = Some p"
      using step coh by simp_all
    from GetGraphicsPipelines_keeps [OF run coh1 in1] obtain new2 where
      coh2: "memo_coherent s2" and in2: "map_of (graphics_cache s2) k1 = Some p"
      and n2: "events s2 = events s1 @ new2"
      and c2: "count_list new2 (LogCompileGraphics k1) = 0"
      by blast
    have ev: "events s2 = events s @ (new1 @ new2)" using n1 n2 by simp
    have cnt: "count_list (new1 @ new2) (LogCompileGraphics k1) \<le> 1"
      using count1 c2 by simp
    show ?thesis
    proof (cases "\<exists>q. last_graphics_pipeline s2 = Some q \<and> last_graphics_key s2 = k1")
      case True
      then have "last_graphics_pipeline s2 = Some p" "last_graphics_key s2 = k1"
        using coh2 in2 by (auto simp: memo_coherent_def)
      then have "GetGraphicsPipeline system' ext' k2 s2 = Inr (p, s2)"
        using eq by (simp add: GetGraphicsPipeline_memo)
      then show ?thesis using ev cnt by auto
    next
      case False
      then have "GetGraphicsPipeline system' ext' k2 s2 =
                 GetGraphicsPipeline_lookup system' ext' k1 s2"
        using eq by (auto simp: GetGraphicsPipeline_def split: option.splits)
      also have "\<dots> = Inr (p, s2\<lparr>last_graphics_key := k1, last_graphics_pipeline := Some p\<rparr>)"
        using in2 by (rule GetGraphicsPipeline_lookup_hit)
      finally show ?thesis using ev cnt by auto
    qed
  qed
  show "GetGraphicsPipeline system' ext' k2 s1 = Inr (p, s1) \<and>
     (\<forall>gc go. GetGraphicsPipeline system' ext' k2
                 (s1\<lparr>graphics_cache := gc, graphics_objects := go\<rparr>) =
               Inr (p, s1\<lparr>graphics_cache := gc, graphics_objects := go\<rparr>)) \<and>
     take (length (events s)) (events s1) = events s \<and>
     length (filter is_compile_graphics (drop (length (events s)) (events s1))) \<le> 1 \<and>
     (memo_coherent s \<and> GetGraphicsPipelines system ext keys s1 = Inr s2 \<longrightarrow>
        (\<exists>s3. GetGraphicsPipeline system' ext' k2 s2 = Inr (p, s3) \<and>
              graphics_cache s3 = graphics_cache s2 \<and>
              graphics_objects s3 = graphics_objects s2 \<and>
              events s3 = events s2 \<and>
              take (length (events s)) (events s3) = events s \<and>
              count_list (drop (length (events s)) (events s3)) (LogCompileGraphics k1) \<le> 1))"
    using again pinned n1 c1 later by simp
qed

lemma example_DecompileShaders_any:
  assumes "map_cache s = [(0x1300, 1), (0x1100, 0)]" and "shader_objects s = example_shaders"
  shows "DecompileShaders example_system example_ext s (example_graphics_key a b n) =
   Inr (gp_program example_pipeline, gp_bindings example_pipeline, [])"
  by (simp add: DecompileShaders_def DecompileShaders_loop.simps MaxShaderProgram_def
        MaxShaderStage_def replicate5 Let_def example_graphics_key_def example_fixed_state_def
        default_Specialization_def example_system_def program_of_index_def
        GetShaderAddress_def example_memory_def TryGet_def assms
        example_shaders_def FillDescriptorLayout_one_const_buffer
        NumBindings_one_const_buffer GetStageFromProgram_def GetStageFromProgram_index_def
        stage_of_index_def example_pipeline_def new_CachedShader_def example_ext_def)

lemma example_keys_differ:
  "example_graphics_key a b n = example_graphics_key a' b' n' \<longleftrightarrow>
   a = a' \<and> b = b' \<and> n = n'"
  by (auto simp: example_graphics_key_def example_fixed_state_def)

lemma example_second_key:
  "GetGraphicsPipelines example_system example_ext [example_graphics_key 0x100 0x300 1]
     cache_with_pipeline = Inr cache_with_two_pipelines"
proof -
  have m: "last_graphics_pipeline cache_with_pipeline = Some 0"
    "last_graphics_key cache_with_pipeline = example_graphics_key 0x100 0x300 0"
    "graphics_cache cache_with_pipeline = [(example_graphics_key 0x100 0x300 0, 0)]"
    "next_address cache_with_pipeline = 1"
    "events cache_with_pipeline = [LogCompileGraphics (example_graphics_key 0x100 0x300 0)]"
    "graphics_objects cache_with_pipeline = [(0, example_pipeline)]"
    by (simp_all add: cache_with_pipeline_def)
  have r: "map_cache cache_with_pipeline = [(0x1300, 1), (0x1100, 0)]"
    "shader_objects cache_with_pipeline = example_shaders"
    by (simp_all add: cache_with_pipeline_def cache_with_shaders_def)
  have p: "example_pipeline\<lparr>gp_key := k\<rparr> =
     \<lparr>gp_key = k, gp_bindings = gp_bindings example_pipeline,
      gp_program = gp_program example_pipeline\<rparr>" for k
    by (simp add: example_pipeline_def)
  show ?thesis
    unfolding GetGraphicsPipelines.simps GetGraphicsPipeline_def m option.case
      GetGraphicsPipeline_lookup_def Let_def
    by (simp add: m r example_keys_differ example_DecompileShaders_any
          cache_with_two_pipelines_def p)
qed

lemma GetGraphicsPipeline_equal_keys_coherent_example:
  "memo_coherent cache_with_shaders \<and>
   GetGraphicsPipeline example_system example_ext (example_graphics_key 0x100 0x300 0)
     cache_with_shaders = Inr (0, cache_with_pipeline) \<and>
   GetGraphicsPipeline example_system example_ext (example_graphics_key 0x100 0x300 0)
     cache_with_pipeline = Inr (0, cache_with_pipeline) \<and>
   events cache_with_pipeline = [LogCompileGraphics (example_graphics_key 0x100 0x300 0)] \<and>
   GetGraphicsPipelines example_system example_ext [example_graphics_key 0x100 0x300 1]
     cache_with_pipeline = Inr cache_with_two_pipelines \<and>
   (\<exists>s3. GetGraphicsPipeline example_system example_ext (example_graphics_key 0x100 0x300 0)
           cache_with_two_pipelines = Inr (0, s3) \<and>
         graphics_cache s3 = graphics_cache cache_with_two_pipelines \<and>
         events s3 = events cache_with_two_pipelines)"
proof -
  have coh: "memo_coherent cache_with_shaders"
    by (simp add: memo_coherent_def cache_with_shaders_def initial_cache_def)
  have ev: "events cache_with_pipeline = [LogCompileGraphics (example_graphics_key 0x100 0x300 0)]"
    by (simp add: cache_with_pipeline_def)
  note t = GetGraphicsPipeline_equal_keys_coherent
    [where system = example_system and ext = example_ext
       and system' = example_system and ext' = example_ext
       and ?k1.0 = "example_graphics_key 0x100 0x300 0"
       and ?k2.0 = "example_graphics_key 0x100 0x300 0"
       and s = cache_with_shaders and p = 0 and ?s1.0 = cache_with_pipeline
       and keys = "[example_graphics_key 0x100 0x300 1]" and ?s2.0 = cache_with_two_pipelines]
  from t example_GetGraphicsPipeline
  have again: "GetGraphicsPipeline example_system example_ext (example_graphics_key 0x100 0x300 0)
     cache_with_pipeline = Inr (0, cache_with_pipeline)"
    by blast
  from t example_GetGraphicsPipeline coh example_second_key
  have later: "\<exists>s3. GetGraphicsPipeline example_system example_ext (example_graphics_key 0x100 0x300 0)
           cache_with_two_pipelines = Inr (0, s3) \<and>
         graphics_cache s3 = graphics_cache cache_with_two_pipelines \<and>
         events s3 = events cache_with_two_pipelines"
    by blast
  show ?thesis
    using coh example_GetGraphicsPipeline again ev example_second_key later by blast
qed

subsection \<open>Equal keys after an invalidation\<close>

lemma example_Unregister:
  "Unregister (Some 0) cache_with_pipeline = Inr stale_cache"
  by (simp add: Unregister_eq stale_cache_def cache_with_pipeline_def cache_with_shaders_def
        initial_cache_def example_shaders_def example_graphics_key_def)

lemma stale_GetShaders:
  "GetShaders example_system example_ext stale_cache =
     Inr ([None, Some 2, None, None, None, Some 1], stale_cache_with_shaders)"
  by (simp add: GetShaders_def GetShaders_loop.simps MaxShaderProgram_def example_system_def
        example_ext_def Let_def program_of_index_def GetShaderAddress_def TryGet_def
        stale_cache_def cache_with_pipeline_def cache_with_shaders_def
        initial_cache_def example_memory_def
         stage_of_index_def make_shared_def Register_def
        stale_cache_with_shaders_def example_shaders_def stage_offset_def
         GetShaderCode_def nullptr_def upt8 graphics_block_size resize_def replicate6)

lemma example_DecompileShaders_registered:
  assumes "map_of (map_cache s) 0x1100 = Some a" and "map_of (map_cache s) 0x1300 = Some b"
    and "shader_objects s ! a =
           new_CachedShader example_ext Vertex 0x100 0x100 0x1100 [1, 1, 0, 1, 1, 1, 1, 1] 10"
    and "shader_objects s ! b =
           new_CachedShader example_ext Fragment 0x300 0x300 0x1300 [1, 1, 0, 1, 1, 1, 1, 1] 10"
  shows "DecompileShaders example_system example_ext s (example_graphics_key v f n) =
   Inr (gp_program example_pipeline, gp_bindings example_pipeline, [])"
  by (simp add: DecompileShaders_def DecompileShaders_loop.simps MaxShaderProgram_def
        MaxShaderStage_def replicate5 Let_def example_graphics_key_def example_fixed_state_def
        default_Specialization_def example_system_def program_of_index_def
        GetShaderAddress_def example_memory_def TryGet_def assms
        FillDescriptorLayout_one_const_buffer
        NumBindings_one_const_buffer GetStageFromProgram_def GetStageFromProgram_index_def
        stage_of_index_def example_pipeline_def new_CachedShader_def example_ext_def)

lemma stale_registry:
  "map_cache stale_cache_with_shaders = [(0x1100, 2), (0x1300, 1)]"
  "shader_objects stale_cache_with_shaders ! 2 =
     new_CachedShader example_ext Vertex 0x100 0x100 0x1100 [1, 1, 0, 1, 1, 1, 1, 1] 10"
  "shader_objects stale_cache_with_shaders ! 1 =
     new_CachedShader example_ext Fragment 0x300 0x300 0x1300 [1, 1, 0, 1, 1, 1, 1, 1] 10"
  "shader_objects stale_cache_with_shaders ! Suc 0 =
     new_CachedShader example_ext Fragment 0x300 0x300 0x1300 [1, 1, 0, 1, 1, 1, 1, 1] 10"
  by (simp_all add: stale_cache_with_shaders_def example_shaders_def)

lemma example_pipeline_key:
  "example_pipeline\<lparr>gp_key := k\<rparr> =
     \<lparr>gp_key = k, gp_bindings = gp_bindings example_pipeline,
      gp_program = gp_program example_pipeline\<rparr>"
  by (simp add: example_pipeline_def)

lemma example_pipeline_eq:
  "\<lparr>gp_key = example_graphics_key 0x100 0x300 0, gp_bindings = gp_bindings example_pipeline,
      gp_program = gp_program example_pipeline\<rparr> = example_pipeline"
  by (simp add: example_pipeline_def)

lemma stale_first_call:
  "GetGraphicsPipeline example_system example_ext (example_graphics_key 0x100 0x300 0)
     stale_cache_with_shaders = Inr (0, stale_cache_with_shaders)"
  by (rule GetGraphicsPipeline_memo)
     (simp_all add: stale_cache_with_shaders_def stale_cache_def cache_with_pipeline_def)

lemma stale_pipeline_destroyed:
  "map_of (graphics_objects stale_cache_with_shaders) 0 = None"
  by (simp add: stale_cache_with_shaders_def stale_cache_def)

lemma stale_second_key:
  "GetGraphicsPipeline example_system example_ext (example_graphics_key 0x100 0x300 1)
     stale_cache_with_shaders = Inr (1, stale_cache_second_key)"
proof -
  have m: "last_graphics_pipeline stale_cache_with_shaders = Some 0"
    "last_graphics_key stale_cache_with_shaders = example_graphics_key 0x100 0x300 0"
    "graphics_cache stale_cache_with_shaders = []"
    "next_address stale_cache_with_shaders = 1"
    "events stale_cache_with_shaders = events stale_cache"
    "graphics_objects stale_cache_with_shaders = []"
    by (simp_all add: stale_cache_with_shaders_def stale_cache_def cache_with_pipeline_def)
  have d: "DecompileShaders example_system example_ext
             (stale_cache_with_shaders\<lparr>last_graphics_key := k, events := e\<rparr>)
             (example_graphics_key 0x100 0x300 n) =
           Inr (gp_program example_pipeline, gp_bindings example_pipeline, [])" for k e n
    by (rule example_DecompileShaders_registered [where a = 2 and b = 1])
       (simp_all add: stale_registry)
  show ?thesis
    unfolding GetGraphicsPipeline_def m option.case GetGraphicsPipeline_lookup_def Let_def
    by (simp add: m d example_keys_differ stale_cache_second_key_def example_pipeline_key)
qed

lemma stale_second_call:
  "GetGraphicsPipeline example_system example_ext (example_graphics_key 0x100 0x300 0)
     stale_cache_second_key = Inr (2, stale_cache_recompiled)"
proof -
  have m: "last_graphics_pipeline stale_cache_second_key = Some 1"
    "last_graphics_key stale_cache_second_key = example_graphics_key 0x100 0x300 1"
    "graphics_cache stale_cache_second_key = [(example_graphics_key 0x100 0x300 1, 1)]"
    "next_address stale_cache_second_key = 2"
    "events stale_cache_second_key =
       events stale_cache @ [LogCompileGraphics (example_graphics_key 0x100 0x300 1)]"
    "graphics_objects stale_cache_second_key =
       [(1, example_pipeline\<lparr>gp_key := example_graphics_key 0x100 0x300 1\<rparr>)]"
    by (simp_all add: stale_cache_second_key_def)
  have r: "map_cache stale_cache_second_key = [(0x1100, 2), (0x1300, 1)]"
    "shader_objects stale_cache_second_key ! 2 =
       new_CachedShader example_ext Vertex 0x100 0x100 0x1100 [1, 1, 0, 1, 1, 1, 1, 1] 10"
    "shader_objects stale_cache_second_key ! 1 =
       new_CachedShader example_ext Fragment 0x300 0x300 0x1300 [1, 1, 0, 1, 1, 1, 1, 1] 10"
    "shader_objects stale_cache_second_key ! Suc 0 =
       new_CachedShader example_ext Fragment 0x300 0x300 0x1300 [1, 1, 0, 1, 1, 1, 1, 1] 10"
    by (simp_all add: stale_cache_second_key_def stale_registry)
  have d: "DecompileShaders example_system example_ext
             (stale_cache_second_key\<lparr>last_graphics_key := k, events := e\<rparr>)
             (example_graphics_key 0x100 0x300 n) =
           Inr (gp_program example_pipeline, gp_bindings example_pipeline, [])" for k e n
    by (rule example_DecompileShaders_registered [where a = 2 and b = 1])
       (simp_all add: r)
  show ?thesis
    unfolding GetGraphicsPipeline_def m option.case GetGraphicsPipeline_lookup_def Let_def
    by (simp add: m d example_keys_differ stale_cache_recompiled_def example_pipeline_eq)
qed

text \<open>
  Claim C7 fails on the code, by the defect of claim C1. \<open>Unregister\<close> leaves the memo
  slot pointing at the pipeline it destroyed. In the run below, from the initial cache,
  the shader at \<open>0x100\<close> is unregistered after pipeline 0 was compiled for the key, and
  \<open>GetShaders\<close> makes its unit again. Then, with no \<open>Unregister\<close> in between, three calls
  of \<open>GetGraphicsPipeline\<close> follow: for the key (the memo slot answers with pipeline 0,
  which no longer lives), for a second key (pipeline 1 is compiled), and for the first key
  again (the map has no entry, pipeline 2 is compiled). The two calls with equal keys
  return different pipelines.
\<close>

theorem equal_keys_different_pipelines_after_Unregister:
  "GetShaders example_system example_ext initial_cache =
     Inr ([None, Some 0, None, None, None, Some 1], cache_with_shaders) \<and>
   GetGraphicsPipeline example_system example_ext (example_graphics_key 0x100 0x300 0)
     cache_with_shaders = Inr (0, cache_with_pipeline) \<and>
   Unregister (Some 0) cache_with_pipeline = Inr stale_cache \<and>
   GetShaders example_system example_ext stale_cache =
     Inr ([None, Some 2, None, None, None, Some 1], stale_cache_with_shaders) \<and>
   GetGraphicsPipeline example_system example_ext (example_graphics_key 0x100 0x300 0)
     stale_cache_with_shaders = Inr (0, stale_cache_with_shaders) \<and>
   map_of (graphics_objects stale_cache_with_shaders) 0 = None \<and>
   GetGraphicsPipeline example_system example_ext (example_graphics_key 0x100 0x300 1)
     stale_cache_with_shaders = Inr (1, stale_cache_second_key) \<and>
   GetGraphicsPipeline example_system example_ext (example_graphics_key 0x100 0x300 0)
     stale_cache_second_key = Inr (2, stale_cache_recompiled) \<and>
   map_of (graphics_cache stale_cache_recompiled) (example_graphics_key 0x100 0x300 0) = Some 2 \<and>
   map_of (graphics_objects stale_cache_recompiled) 2 = Some example_pipeline \<and>
   (0 :: nat) \<noteq> 2"
proof -
  have a: "map_of (graphics_cache stale_cache_recompiled) (example_graphics_key 0x100 0x300 0)
             = Some 2"
    by (simp add: stale_cache_recompiled_def example_keys_differ)
  have b: "map_of (graphics_objects stale_cache_recompiled) 2 = Some example_pipeline"
    by (simp add: stale_cache_recompiled_def)
  show ?thesis
    using example_GetShaders example_GetGraphicsPipeline example_Unregister stale_GetShaders
      stale_first_call stale_pipeline_destroyed stale_second_key stale_second_call a b
    by simp
qed

subsection \<open>Shader units are made once\<close>

lemma TryGet_Register_make_shared:
  "TryGet (Register (fst (make_shared object s)) (snd (make_shared object s))) h =
     (if h = sh_host_ptr object then Some (length (shader_objects s)) else TryGet s h)"
  by (simp add: TryGet_def Register_def make_shared_def)















subsection \<open>VertexA and VertexB in DecompileShaders\<close>

lemma index_of_program_of_index:
  "j < MaxShaderProgram \<Longrightarrow> index_of_program (program_of_index j) = j"
proof -
  assume "j < MaxShaderProgram"
  then have "j = 0 \<or> j = 1 \<or> j = 2 \<or> j = 3 \<or> j = 4 \<or> j = 5"
    by (simp add: MaxShaderProgram_def) arith
  then show ?thesis
    by (auto simp: program_of_index_def)
qed

lemma DecompileShaders_loop_end:
  "\<not> index < MaxShaderProgram \<Longrightarrow>
   DecompileShaders_loop system ext s index (specialization, program, bindings, evs) =
   Inr (program, bindings, evs)"
  by (subst DecompileShaders_loop.simps) simp

lemma DecompileShaders_loop_skip:
  "index < MaxShaderProgram \<Longrightarrow> \<not> sys_IsShaderConfigEnabled system index \<Longrightarrow>
   DecompileShaders_loop system ext s index st =
   DecompileShaders_loop system ext s (index + 1) st"
proof -
  assume a: "index < MaxShaderProgram" "\<not> sys_IsShaderConfigEnabled system index"
  obtain specialization program bindings evs where
    st: "st = (specialization, program, bindings, evs)" by (cases st) auto
  show ?thesis
    unfolding st using a by (subst DecompileShaders_loop.simps) (simp add: Let_def)
qed

lemma DecompileShaders_loop_null:
  "index < MaxShaderProgram \<Longrightarrow> sys_IsShaderConfigEnabled system index \<Longrightarrow>
   TryGet s (host_ptr_of_program system index) = None \<Longrightarrow>
   DecompileShaders_loop system ext s index st = Inl NullShaderDereferenced"
proof -
  assume a: "index < MaxShaderProgram" "sys_IsShaderConfigEnabled system index"
    "TryGet s (host_ptr_of_program system index) = None"
  obtain specialization program bindings evs where
    st: "st = (specialization, program, bindings, evs)" by (cases st) auto
  show ?thesis
    unfolding st using a
    by (subst DecompileShaders_loop.simps) (simp add: Let_def host_ptr_of_program_def)
qed

lemma DecompileShaders_loop_stage:
  "index < MaxShaderProgram \<Longrightarrow> sys_IsShaderConfigEnabled system index \<Longrightarrow>
   TryGet s (host_ptr_of_program system index) = Some r \<Longrightarrow>
   DecompileShaders_loop system ext s index st =
   DecompileShaders_loop system ext s
     ((if program_of_index index = VertexA then index + 1 else index) + 1)
     (stage_step ext (shader_objects s ! r) index st)"
proof -
  assume a: "index < MaxShaderProgram" "sys_IsShaderConfigEnabled system index"
    "TryGet s (host_ptr_of_program system index) = Some r"
  obtain specialization program bindings evs where
    st: "st = (specialization, program, bindings, evs)" by (cases st) auto
  show ?thesis
    unfolding st using a
    by (subst DecompileShaders_loop.simps)
       (simp add: Let_def split_beta host_ptr_of_program_def stage_step_def
          FillDescriptorLayout_next)
qed

lemma DecompileShaders_loop_cong:
  assumes "sys_memory_manager system = sys_memory_manager system'"
    and "sys_CodeAddress system = sys_CodeAddress system'"
    and "\<forall>j. index \<le> j \<and> j < MaxShaderProgram \<longrightarrow>
           sys_IsShaderConfigEnabled system j = sys_IsShaderConfigEnabled system' j \<and>
           sys_shader_config_offset system j = sys_shader_config_offset system' j"
  shows "DecompileShaders_loop system ext s index st =
         DecompileShaders_loop system' ext s index st"
  using assms(3)
proof (induction "MaxShaderProgram - index" arbitrary: index st rule: less_induct)
  case less
  show ?case
  proof (cases "index < MaxShaderProgram")
    case False
    obtain specialization program bindings evs where
      st: "st = (specialization, program, bindings, evs)" by (cases st) auto
    show ?thesis
      unfolding st using False by (simp add: DecompileShaders_loop_end)
  next
    case True
    have en: "sys_IsShaderConfigEnabled system index = sys_IsShaderConfigEnabled system' index"
      using less.prems True by simp
    have hp: "host_ptr_of_program system index = host_ptr_of_program system' index"
      using less.prems True assms(1,2)
      by (simp add: host_ptr_of_program_def GetShaderAddress_def index_of_program_of_index)
    have ih: "DecompileShaders_loop system ext s index' st' =
              DecompileShaders_loop system' ext s index' st'" if "index < index'" for index' st'
      using less.prems True that by (intro less.hyps) auto
    show ?thesis
    proof (cases "sys_IsShaderConfigEnabled system index")
      case False
      then show ?thesis
        using True en ih [of "index + 1"] by (simp add: DecompileShaders_loop_skip)
    next
      case enabled: True
      show ?thesis
      proof (cases "TryGet s (host_ptr_of_program system index)")
        case None
        then show ?thesis
          using True enabled en hp by (simp add: DecompileShaders_loop_null)
      next
        case (Some r)
        have "DecompileShaders_loop system ext s index st =
              DecompileShaders_loop system ext s
                ((if program_of_index index = VertexA then index + 1 else index) + 1)
                (stage_step ext (shader_objects s ! r) index st)"
          using True enabled Some by (rule DecompileShaders_loop_stage)
        also have "\<dots> = DecompileShaders_loop system' ext s
                ((if program_of_index index = VertexA then index + 1 else index) + 1)
                (stage_step ext (shader_objects s ! r) index st)"
          by (rule ih) simp
        also have "\<dots> = DecompileShaders_loop system' ext s index st"
          using True enabled Some en hp by (simp add: DecompileShaders_loop_stage)
        finally show ?thesis .
      qed
    qed
  qed
qed

lemma stage_step_VertexA:
  "stage_step ext shader 0 (specialization, program, bindings, evs) =
     (specialization\<lparr>spec_base_binding :=
         spec_base_binding specialization + NumBindings (sh_entries shader)\<rparr>,
      program[0 := Some \<lparr>sp_code = ext_Decompile ext (sh_shader_ir shader) Vertex
                                      (sh_registry shader) specialization,
                          sp_entries = sh_entries shader\<rparr>],
      fst (FillDescriptorLayout (sh_entries shader) bindings VertexA
             (spec_base_binding specialization)),
      evs @ [Unimplemented])"
  by (simp add: stage_step_def Let_def program_of_index_def FillDescriptorLayout_next)

lemma DecompileShaders_loop_VertexA:
  assumes "sys_IsShaderConfigEnabled system 0"
    and "TryGet s (host_ptr_of_program system 0) = Some r"
  shows "DecompileShaders_loop system ext s 0 st =
         DecompileShaders_loop system ext s 2 (stage_step ext (shader_objects s ! r) 0 st)"
proof -
  have lt: "0 < MaxShaderProgram" by (simp add: MaxShaderProgram_def)
  have n: "(if program_of_index 0 = VertexA then 0 + 1 else 0) + 1 = (2 :: nat)"
    by (simp add: program_of_index_def)
  show ?thesis
    using DecompileShaders_loop_stage [OF lt assms, of ext st] by (simp only: n)
qed

text \<open>
  Claim C10 at the code. When \<open>VertexA\<close> is enabled, the pass for index 0 writes stage slot
  0 with the code generated from the \<open>VertexA\<close> shader alone (as stage \<open>Vertex\<close>, after the
  report "unimplemented" of \<open>GetShaderType\<close>), adds the bindings of the \<open>VertexA\<close> manifest,
  and goes on at index 2. The \<open>VertexB\<close> program is never looked at: the result is the
  same whatever its enable bit and its address are. One slot and one manifest, as the
  claim says; but nothing of \<open>VertexB\<close> is merged.
\<close>

theorem VertexA_alone_in_the_vertex_slot:
  "sys_IsShaderConfigEnabled system 0 \<longrightarrow>
     DecompileShaders
       (system\<lparr>sys_IsShaderConfigEnabled := (sys_IsShaderConfigEnabled system)(1 := enabled_b),
               sys_shader_config_offset := (sys_shader_config_offset system)(1 := offset_b)\<rparr>)
       ext s key
     = DecompileShaders system ext s key \<and>
     (TryGet s (host_ptr_of_program system 0) = None \<longrightarrow>
        DecompileShaders system ext s key = Inl NullShaderDereferenced) \<and>
     (TryGet s (host_ptr_of_program system 0) = Some r \<longrightarrow>
        DecompileShaders_loop system ext s 0 (specialization, program, bindings, evs) =
        DecompileShaders_loop system ext s 2
          (specialization\<lparr>spec_base_binding :=
              spec_base_binding specialization + NumBindings (sh_entries (shader_objects s ! r))\<rparr>,
           program[0 := Some \<lparr>sp_code = ext_Decompile ext (sh_shader_ir (shader_objects s ! r))
                                           Vertex (sh_registry (shader_objects s ! r))
                                           specialization,
                               sp_entries = sh_entries (shader_objects s ! r)\<rparr>],
           fst (FillDescriptorLayout (sh_entries (shader_objects s ! r)) bindings VertexA
                  (spec_base_binding specialization)),
           evs @ [Unimplemented]))"
proof (intro impI conjI)
  assume a: "sys_IsShaderConfigEnabled system 0"
  let ?system' = "system\<lparr>sys_IsShaderConfigEnabled :=
                           (sys_IsShaderConfigEnabled system)(1 := enabled_b),
                         sys_shader_config_offset :=
                           (sys_shader_config_offset system)(1 := offset_b)\<rparr>"
  have lt: "0 < MaxShaderProgram" by (simp add: MaxShaderProgram_def)
  have a': "sys_IsShaderConfigEnabled ?system' 0" using a by simp
  have hp: "host_ptr_of_program ?system' 0 = host_ptr_of_program system 0"
    by (simp add: host_ptr_of_program_def GetShaderAddress_def program_of_index_def)
  have later: "DecompileShaders_loop ?system' ext s 2 st = DecompileShaders_loop system ext s 2 st"
    for st
    by (rule DecompileShaders_loop_cong) auto
  have loop: "DecompileShaders_loop ?system' ext s 0 st = DecompileShaders_loop system ext s 0 st"
    for st
  proof (cases "TryGet s (host_ptr_of_program system 0)")
    case None
    then show ?thesis
      using lt a a' hp by (simp add: DecompileShaders_loop_null)
  next
    case (Some q)
    have "DecompileShaders_loop ?system' ext s 0 st =
          DecompileShaders_loop ?system' ext s 2 (stage_step ext (shader_objects s ! q) 0 st)"
      using a' Some hp by (intro DecompileShaders_loop_VertexA) simp_all
    also have "\<dots> =
          DecompileShaders_loop system ext s 2 (stage_step ext (shader_objects s ! q) 0 st)"
      by (rule later)
    also have "\<dots> = DecompileShaders_loop system ext s 0 st"
      using a Some by (rule DecompileShaders_loop_VertexA [symmetric])
    finally show ?thesis .
  qed
  show "DecompileShaders ?system' ext s key = DecompileShaders system ext s key"
    by (simp only: DecompileShaders_def Let_def loop)
  show "DecompileShaders system ext s key = Inl NullShaderDereferenced"
    if "TryGet s (host_ptr_of_program system 0) = None"
    using lt a that by (simp add: DecompileShaders_def Let_def DecompileShaders_loop_null)
  show "DecompileShaders_loop system ext s 0 (specialization, program, bindings, evs) =
        DecompileShaders_loop system ext s 2
          (specialization\<lparr>spec_base_binding :=
              spec_base_binding specialization + NumBindings (sh_entries (shader_objects s ! r))\<rparr>,
           program[0 := Some \<lparr>sp_code = ext_Decompile ext (sh_shader_ir (shader_objects s ! r))
                                           Vertex (sh_registry (shader_objects s ! r))
                                           specialization,
                               sp_entries = sh_entries (shader_objects s ! r)\<rparr>],
           fst (FillDescriptorLayout (sh_entries (shader_objects s ! r)) bindings VertexA
                  (spec_base_binding specialization)),
           evs @ [Unimplemented])"
    if "TryGet s (host_ptr_of_program system 0) = Some r"
    using DecompileShaders_loop_VertexA [OF a that, of ext "(specialization, program, bindings, evs)"]
    by (simp only: stage_step_VertexA)
qed

lemma constant_block_size:
  "CalculateProgramSize [a, a, a, a, a, a, a, a] False = 8"
  by (simp add: CalculateProgramSize_def CalculateProgramSize_loop.simps)

lemma vertex_ab_GetShaders:
  "GetShaders vertex_ab_system example_ext initial_cache =
     Inr ([Some 0, Some 1, None, None, None, Some 2], vertex_ab_cache)"
  by (simp add: GetShaders_def GetShaders_loop.simps MaxShaderProgram_def vertex_ab_system_def
        example_ext_def Let_def program_of_index_def GetShaderAddress_def TryGet_def
        initial_cache_def vertex_ab_memory_def stage_of_index_def make_shared_def Register_def
        vertex_ab_cache_def vertex_ab_shaders_def stage_offset_def
        GetShaderCode_def nullptr_def upt8 constant_block_size resize_def replicate6)

lemma vertex_ab_DecompileShaders:
  "DecompileShaders vertex_ab_system example_ext vertex_ab_cache
     (example_graphics_key 0x100 0x300 0) =
   Inr (vertex_ab_program, gp_bindings example_pipeline, [Unimplemented])"
  by (simp add: DecompileShaders_def DecompileShaders_loop.simps MaxShaderProgram_def
        MaxShaderStage_def replicate5 Let_def example_graphics_key_def example_fixed_state_def
        default_Specialization_def vertex_ab_system_def program_of_index_def
        GetShaderAddress_def vertex_ab_memory_def TryGet_def vertex_ab_cache_def
        initial_cache_def vertex_ab_shaders_def FillDescriptorLayout_one_const_buffer
        NumBindings_one_const_buffer GetStageFromProgram_def GetStageFromProgram_index_def
        stage_of_index_def example_pipeline_def new_CachedShader_def example_ext_def
        vertex_ab_program_def)

text \<open>
  With \<open>VertexA\<close> and \<open>VertexB\<close> both enabled, slot 0 holds the code of the shader at
  \<open>0x100\<close> only, and the result is the same with \<open>VertexB\<close> disabled and moved.
\<close>

theorem VertexA_alone_in_the_vertex_slot_witness:
  "sys_IsShaderConfigEnabled vertex_ab_system 0 \<and>
   sys_IsShaderConfigEnabled vertex_ab_system 1 \<and>
   GetShaders vertex_ab_system example_ext initial_cache =
     Inr ([Some 0, Some 1, None, None, None, Some 2], vertex_ab_cache) \<and>
   sh_program_code (shader_objects vertex_ab_cache ! 1) =
     [0x200, 0x200, 0x200, 0x200, 0x200, 0x200, 0x200, 0x200] \<and>
   DecompileShaders vertex_ab_system example_ext vertex_ab_cache
     (example_graphics_key 0x100 0x300 0) =
     Inr (vertex_ab_program, gp_bindings example_pipeline, [Unimplemented]) \<and>
   DecompileShaders
     (vertex_ab_system
        \<lparr>sys_IsShaderConfigEnabled := (sys_IsShaderConfigEnabled vertex_ab_system)(1 := False),
         sys_shader_config_offset := (sys_shader_config_offset vertex_ab_system)(1 := 0x700)\<rparr>)
     example_ext vertex_ab_cache (example_graphics_key 0x100 0x300 0) =
     Inr (vertex_ab_program, gp_bindings example_pipeline, [Unimplemented])"
proof -
  have a: "sys_IsShaderConfigEnabled vertex_ab_system 0"
    and b: "sys_IsShaderConfigEnabled vertex_ab_system 1"
    by (simp_all add: vertex_ab_system_def)
  have c: "sh_program_code (shader_objects vertex_ab_cache ! 1) =
     [0x200, 0x200, 0x200, 0x200, 0x200, 0x200, 0x200, 0x200]"
    by (simp add: vertex_ab_cache_def vertex_ab_shaders_def new_CachedShader_def Let_def)
  have d: "DecompileShaders
     (vertex_ab_system
        \<lparr>sys_IsShaderConfigEnabled := (sys_IsShaderConfigEnabled vertex_ab_system)(1 := False),
         sys_shader_config_offset := (sys_shader_config_offset vertex_ab_system)(1 := 0x700)\<rparr>)
     example_ext vertex_ab_cache (example_graphics_key 0x100 0x300 0) =
     DecompileShaders vertex_ab_system example_ext vertex_ab_cache
       (example_graphics_key 0x100 0x300 0)"
    using VertexA_alone_in_the_vertex_slot
      [where system = vertex_ab_system and enabled_b = False and offset_b = "0x700"
         and ext = example_ext and s = vertex_ab_cache
         and key = "example_graphics_key 0x100 0x300 0"] a
    by blast
  show ?thesis
    using a b c vertex_ab_GetShaders vertex_ab_DecompileShaders
    by (simp only: d simp_thms)
qed

end
